theory Spec2Isabelle
  imports Complex_Main
begin

section \<open>The fallback resolution engine (master plan, section 8.1)\<close>

text \<open>
  The resolver of the master plan, \<^verbatim>\<open>resolve_parameter(param_name, config, live_data)\<close>,
  walks the configured source list of a parameter and returns the first result a source
  yields. Three things it calls are not part of the plan and are taken as parameters:
  \<^verbatim>\<open>is_valid(value, range)\<close>, \<^verbatim>\<open>calculations.compute(formula, live_data, config)\<close> and the
  representation of a formula. A Python exception is a value of type \<open>exn\<close>; the resolver
  catches \<^verbatim>\<open>CalculationError\<close> only, so any other exception of \<^verbatim>\<open>compute\<close> leaves it.
  Values are real numbers: the resolver hands them on and does no arithmetic of its own.
\<close>

datatype exn = CalculationError | OtherException string

type_synonym range = "real \<times> real"

type_synonym live_data = "string \<rightharpoonup> real"

text \<open>
  A source of the priority list, by its \<^verbatim>\<open>source.type\<close>: \<^verbatim>\<open>"modbus"\<close> with \<^verbatim>\<open>register\<close> and
  \<^verbatim>\<open>range\<close>, \<^verbatim>\<open>"calculated"\<close> with \<^verbatim>\<open>formula\<close>, \<^verbatim>\<open>"manual"\<close> and \<^verbatim>\<open>"default"\<close> with \<^verbatim>\<open>value\<close>.
  \<open>Other\<close> is a source of any other type: no branch of the resolver matches it.
\<close>

datatype 'f Source =
    Modbus string range
  | Calculated 'f
  | Manual real
  | Default real
  | Other string

record 'f config =
  get_source_priority :: "string \<Rightarrow> 'f Source list"

text \<open>\<^verbatim>\<open>ParameterResult(value, source=..., quality=...)\<close>; \<open>None\<close> is Python's \<^verbatim>\<open>None\<close>.\<close>

record ParameterResult =
  result_value :: "real option"
  source :: string
  quality :: string

definition mk_result :: "real option \<Rightarrow> string \<Rightarrow> string \<Rightarrow> ParameterResult" where
  "mk_result v s q = \<lparr>result_value = v, source = s, quality = q\<rparr>"

text \<open>
  One pass of the loop body for one source. \<open>None\<close>: no \<^verbatim>\<open>return\<close> was reached and the loop
  goes on to the next source; \<open>Some (Inr r)\<close>: \<^verbatim>\<open>return r\<close>; \<open>Some (Inl e)\<close>: the exception
  \<open>e\<close> of \<^verbatim>\<open>compute\<close> was not caught.
\<close>

fun try_source ::
  "(real \<Rightarrow> range \<Rightarrow> bool) \<Rightarrow> ('f \<Rightarrow> live_data \<Rightarrow> 'f config \<Rightarrow> exn + real) \<Rightarrow>
   'f config \<Rightarrow> live_data \<Rightarrow> 'f Source \<Rightarrow> (exn + ParameterResult) option" where
  "try_source is_valid compute config live (Modbus register rng) =
     (case live register of
        None \<Rightarrow> None
      | Some v \<Rightarrow> if is_valid v rng then Some (Inr (mk_result (Some v) ''MODBUS'' ''GOOD''))
                  else None)"
| "try_source is_valid compute config live (Calculated formula) =
     (case compute formula live config of
        Inr v \<Rightarrow> Some (Inr (mk_result (Some v) ''CALCULATED'' ''INFERRED''))
      | Inl CalculationError \<Rightarrow> None
      | Inl (OtherException e) \<Rightarrow> Some (Inl (OtherException e)))"
| "try_source is_valid compute config live (Manual v) =
     Some (Inr (mk_result (Some v) ''MANUAL'' ''STATIC''))"
| "try_source is_valid compute config live (Default v) =
     Some (Inr (mk_result (Some v) ''DEFAULT'' ''ASSUMED''))"
| "try_source is_valid compute config live (Other t) = None"

text \<open>The \<^verbatim>\<open>for\<close> loop, and the \<^verbatim>\<open>return\<close> after it when no source returned.\<close>

fun resolve_sources ::
  "(real \<Rightarrow> range \<Rightarrow> bool) \<Rightarrow> ('f \<Rightarrow> live_data \<Rightarrow> 'f config \<Rightarrow> exn + real) \<Rightarrow>
   'f config \<Rightarrow> live_data \<Rightarrow> 'f Source list \<Rightarrow> exn + ParameterResult" where
  "resolve_sources is_valid compute config live [] = Inr (mk_result None ''NONE'' ''BAD'')"
| "resolve_sources is_valid compute config live (s # sources) =
     (case try_source is_valid compute config live s of
        Some outcome \<Rightarrow> outcome
      | None \<Rightarrow> resolve_sources is_valid compute config live sources)"

definition resolve_parameter ::
  "(real \<Rightarrow> range \<Rightarrow> bool) \<Rightarrow> ('f \<Rightarrow> live_data \<Rightarrow> 'f config \<Rightarrow> exn + real) \<Rightarrow>
   string \<Rightarrow> 'f config \<Rightarrow> live_data \<Rightarrow> exn + ParameterResult" where
  "resolve_parameter is_valid compute param_name config live =
     resolve_sources is_valid compute config live (get_source_priority config param_name)"


subsection \<open>Quality badges (master plan, section 8.2)\<close>

text \<open>
  The table of section 8.2: every displayed value shows the badge of its data source.
  The tags are those of \<^verbatim>\<open>LiveDataResponse.sources\<close> in the API client
  (\<^verbatim>\<open>'LIVE' | 'CALCULATED' | 'MANUAL' | 'DEFAULT' | 'BAD'\<close>); the table prints
  \<^verbatim>\<open>CALCULATED\<close> as \<^verbatim>\<open>CALC\<close>.
\<close>

definition badge :: "ParameterResult \<Rightarrow> string" where
  "badge r =
     (if source r = ''MODBUS'' then ''LIVE''
      else if source r = ''CALCULATED'' then ''CALCULATED''
      else if source r = ''MANUAL'' then ''MANUAL''
      else if source r = ''DEFAULT'' then ''DEFAULT''
      else ''BAD'')"

text \<open>
  Modelled from the spec: \<^verbatim>\<open>is_valid(value, source.range)\<close> is called by the resolver and
  defined nowhere in the plan. The spec (4.2, step 2) fails a live entry whose value falls
  outside \<^verbatim>\<open>validRange\<close>.
\<close>

fun range_valid :: "real \<Rightarrow> range \<Rightarrow> bool" where
  "range_valid v (lo, hi) = (lo \<le> v \<and> v \<le> hi)"

text \<open>
  Modelled from the spec: the telemetry snapshot (section 6) maps a channel to a sample
  with its value and the time it was taken; the plan has no such type.
\<close>

record sample =
  sample_value :: real
  sampledAt :: int

text \<open>
  Modelled from the spec: the resolver of the plan receives \<^verbatim>\<open>live_data\<close>, which maps a
  register to its value alone; of a snapshot of the spec that is the values of its samples.
\<close>

definition live_data_of :: "(string \<rightharpoonup> sample) \<Rightarrow> live_data" where
  "live_data_of snapshot = (\<lambda>channel. map_option sample_value (snapshot channel))"

text \<open>
  Modelled from the spec: the staleness test (4.2, step 2), \<^verbatim>\<open>now - sample_time > maxStaleness\<close>.
  The plan has no staleness test.
\<close>

definition stale :: "int \<Rightarrow> int \<Rightarrow> sample \<Rightarrow> bool" where
  "stale now maxStaleness s = (now - sampledAt s > maxStaleness)"

section \<open>The formula evaluator (spec 4.3)\<close>

text \<open>
  Modelled from the spec: \<^verbatim>\<open>calculations.compute\<close> and the formula language are not part of
  the plan. Spec 4.3 gives the language: arithmetic \<^verbatim>\<open>+ - * / ^\<close>, comparison, the functions
  \<^verbatim>\<open>min, max, clamp, ln, exp, abs\<close> and bare identifiers naming other parameters; the same
  section names the domain errors of division, logarithm and square root, so \<^verbatim>\<open>sqrt\<close> is
  a function here too. A formula is its syntax tree, built once when it is registered.
\<close>

datatype cmp_op = Lt | Le | Gt | Ge | Eq | Ne

datatype expr =
    Num real
  | Ident string
  | Add expr expr
  | Sub expr expr
  | Mul expr expr
  | Div expr expr
  | Pow expr expr
  | Cmp cmp_op expr expr
  | FnMin expr expr
  | FnMax expr expr
  | FnClamp expr expr expr
  | FnLn expr
  | FnExp expr
  | FnAbs expr
  | FnSqrt expr

text \<open>Modelled from the spec: the results of the parameters resolved so far in a tick.\<close>

type_synonym resolved = "string \<rightharpoonup> ParameterResult"

text \<open>Modelled from the spec: the comparisons of the formula language.\<close>

fun holds :: "cmp_op \<Rightarrow> real \<Rightarrow> real \<Rightarrow> bool" where
  "holds Lt x y = (x < y)"
| "holds Le x y = (x \<le> y)"
| "holds Gt x y = (x > y)"
| "holds Ge x y = (x \<ge> y)"
| "holds Eq x y = (x = y)"
| "holds Ne x y = (x \<noteq> y)"

text \<open>
  Modelled from the spec: the operators that can fail; \<open>None\<close> is an evaluation failure.
  Division by zero and the logarithm of a non-positive number fail (4.2, step 3), as does
  the square root of a negative number (4.3).
\<close>

definition divide_op :: "real \<Rightarrow> real \<Rightarrow> real option" where
  "divide_op x y = (if y = 0 then None else Some (x / y))"

text \<open>Modelled from the spec: \<^verbatim>\<open>^\<close>; a power fails where it has no real value.\<close>

definition power_op :: "real \<Rightarrow> real \<Rightarrow> real option" where
  "power_op x y =
     (if 0 < x then Some (x powr y)
      else if x = 0 then (if 0 < y then Some 0 else if y = 0 then Some 1 else None)
      else if y = of_int \<lfloor>y\<rfloor> then Some (x powi \<lfloor>y\<rfloor>)
      else None)"

text \<open>Modelled from the spec: \<^verbatim>\<open>ln\<close> and \<^verbatim>\<open>sqrt\<close> with their domain errors.\<close>

definition ln_op :: "real \<Rightarrow> real option" where
  "ln_op x = (if 0 < x then Some (ln x) else None)"

definition sqrt_op :: "real \<Rightarrow> real option" where
  "sqrt_op x = (if 0 \<le> x then Some (sqrt x) else None)"

text \<open>
  Modelled from the spec: an operator is applied to the values of its operands, and the
  failure of an operand is the failure of the whole formula.
\<close>

definition binary :: "(real \<Rightarrow> real \<Rightarrow> real option) \<Rightarrow> real option \<Rightarrow> real option \<Rightarrow> real option" where
  "binary f a b =
     (case a of None \<Rightarrow> None
      | Some x \<Rightarrow> (case b of None \<Rightarrow> None | Some y \<Rightarrow> f x y))"

definition unary :: "(real \<Rightarrow> real option) \<Rightarrow> real option \<Rightarrow> real option" where
  "unary f a = (case a of None \<Rightarrow> None | Some x \<Rightarrow> f x)"

text \<open>
  Modelled from the spec: the value of an identifier is the value that parameter resolved
  to in this tick; a parameter with no result yet, or one that resolved to \<^verbatim>\<open>BAD\<close>, is an
  evaluation failure (4.3).
\<close>

definition ident_value :: "resolved \<Rightarrow> string \<Rightarrow> real option" where
  "ident_value res p =
     (case res p of
        None \<Rightarrow> None
      | Some r \<Rightarrow> if quality r = ''BAD'' then None else result_value r)"

text \<open>
  Modelled from the spec: the evaluation of a formula against the results of this tick
  (4.3). A comparison yields 1 or 0; \<^verbatim>\<open>clamp(x, lo, hi)\<close> is \<^verbatim>\<open>max(lo, min(hi, x))\<close>.
\<close>

fun eval_formula :: "resolved \<Rightarrow> expr \<Rightarrow> real option" where
  "eval_formula res (Num c) = Some c"
| "eval_formula res (Ident p) = ident_value res p"
| "eval_formula res (Add a b) =
     binary (\<lambda>x y. Some (x + y)) (eval_formula res a) (eval_formula res b)"
| "eval_formula res (Sub a b) =
     binary (\<lambda>x y. Some (x - y)) (eval_formula res a) (eval_formula res b)"
| "eval_formula res (Mul a b) =
     binary (\<lambda>x y. Some (x * y)) (eval_formula res a) (eval_formula res b)"
| "eval_formula res (Div a b) = binary divide_op (eval_formula res a) (eval_formula res b)"
| "eval_formula res (Pow a b) = binary power_op (eval_formula res a) (eval_formula res b)"
| "eval_formula res (Cmp opr a b) =
     binary (\<lambda>x y. Some (if holds opr x y then 1 else 0)) (eval_formula res a) (eval_formula res b)"
| "eval_formula res (FnMin a b) =
     binary (\<lambda>x y. Some (min x y)) (eval_formula res a) (eval_formula res b)"
| "eval_formula res (FnMax a b) =
     binary (\<lambda>x y. Some (max x y)) (eval_formula res a) (eval_formula res b)"
| "eval_formula res (FnClamp a lo hi) =
     (case eval_formula res a of
        None \<Rightarrow> None
      | Some x \<Rightarrow>
          binary (\<lambda>l h. Some (max l (min h x))) (eval_formula res lo) (eval_formula res hi))"
| "eval_formula res (FnLn a) = unary ln_op (eval_formula res a)"
| "eval_formula res (FnExp a) = unary (\<lambda>x. Some (exp x)) (eval_formula res a)"
| "eval_formula res (FnAbs a) = unary (\<lambda>x. Some \<bar>x\<bar>) (eval_formula res a)"
| "eval_formula res (FnSqrt a) = unary sqrt_op (eval_formula res a)"

text \<open>
  Modelled from the spec: \<^verbatim>\<open>calculations.compute(formula, live_data, config)\<close>, absent from
  the plan. It evaluates the formula against the values resolved so far in this tick, and
  every evaluation failure is the \<^verbatim>\<open>CalculationError\<close> the resolver catches.
\<close>

definition compute_resolved :: "resolved \<Rightarrow> expr \<Rightarrow> live_data \<Rightarrow> expr config \<Rightarrow> exn + real" where
  "compute_resolved res formula live config =
     (case eval_formula res formula of None \<Rightarrow> Inl CalculationError | Some v \<Rightarrow> Inr v)"

text \<open>Modelled from the spec: the identifiers a formula refers to (4.3, cycle detection).\<close>

fun idents :: "expr \<Rightarrow> string list" where
  "idents (Num c) = []"
| "idents (Ident p) = [p]"
| "idents (Add a b) = idents a @ idents b"
| "idents (Sub a b) = idents a @ idents b"
| "idents (Mul a b) = idents a @ idents b"
| "idents (Div a b) = idents a @ idents b"
| "idents (Pow a b) = idents a @ idents b"
| "idents (Cmp opr a b) = idents a @ idents b"
| "idents (FnMin a b) = idents a @ idents b"
| "idents (FnMax a b) = idents a @ idents b"
| "idents (FnClamp a lo hi) = idents a @ idents lo @ idents hi"
| "idents (FnLn a) = idents a"
| "idents (FnExp a) = idents a"
| "idents (FnAbs a) = idents a"
| "idents (FnSqrt a) = idents a"

text \<open>Modelled from the spec: a formula with all the formulas it is built from.\<close>

fun subformulas :: "expr \<Rightarrow> expr set" where
  "subformulas (Num c) = {Num c}"
| "subformulas (Ident p) = {Ident p}"
| "subformulas (Add a b) = insert (Add a b) (subformulas a \<union> subformulas b)"
| "subformulas (Sub a b) = insert (Sub a b) (subformulas a \<union> subformulas b)"
| "subformulas (Mul a b) = insert (Mul a b) (subformulas a \<union> subformulas b)"
| "subformulas (Div a b) = insert (Div a b) (subformulas a \<union> subformulas b)"
| "subformulas (Pow a b) = insert (Pow a b) (subformulas a \<union> subformulas b)"
| "subformulas (Cmp opr a b) = insert (Cmp opr a b) (subformulas a \<union> subformulas b)"
| "subformulas (FnMin a b) = insert (FnMin a b) (subformulas a \<union> subformulas b)"
| "subformulas (FnMax a b) = insert (FnMax a b) (subformulas a \<union> subformulas b)"
| "subformulas (FnClamp a lo hi) =
     insert (FnClamp a lo hi) (subformulas a \<union> subformulas lo \<union> subformulas hi)"
| "subformulas (FnLn a) = insert (FnLn a) (subformulas a)"
| "subformulas (FnExp a) = insert (FnExp a) (subformulas a)"
| "subformulas (FnAbs a) = insert (FnAbs a) (subformulas a)"
| "subformulas (FnSqrt a) = insert (FnSqrt a) (subformulas a)"

section \<open>The parameter registry (spec 4.1) and the scheduler (spec 4.4)\<close>

text \<open>
  Modelled from the spec: the registry, its \<^verbatim>\<open>Load\<close> and the per-tick scheduler are not part
  of the plan, which has the resolver of one parameter only. A generation is the list of
  parameter definitions handed to \<^verbatim>\<open>Load\<close>; the name is the key, so the first definition
  of a name is the one in force.
\<close>

datatype ValueMode = LIVE | MANUAL

record ParameterDef =
  pd_name :: string
  pd_unit :: string
  pd_valueMode :: ValueMode
  pd_sourceChain :: "expr Source list"

type_synonym generation = "ParameterDef list"

text \<open>
  Modelled from the spec: a \<^verbatim>\<open>ManualSource\<close> is in the chain only when the parameter's
  \<^verbatim>\<open>valueMode\<close> is \<^verbatim>\<open>MANUAL\<close> (spec 3); with manual mode off the entry is absent and the
  chain goes on to the next source (spec 8, end-to-end scenario).
\<close>

fun in_force :: "ValueMode \<Rightarrow> expr Source \<Rightarrow> bool" where
  "in_force m (Manual v) = (m = MANUAL)"
| "in_force m s = True"

definition effective_chain :: "ParameterDef \<Rightarrow> expr Source list" where
  "effective_chain d = filter (in_force (pd_valueMode d)) (pd_sourceChain d)"

text \<open>
  Modelled from the spec: \<^verbatim>\<open>config.get_source_priority(param_name)\<close> for a generation of
  the registry. A name that is not defined has no source.
\<close>

definition chain_of :: "generation \<Rightarrow> string \<Rightarrow> expr Source list" where
  "chain_of gen p =
     (case find (\<lambda>d. pd_name d = p) gen of None \<Rightarrow> [] | Some d \<Rightarrow> effective_chain d)"

definition config_of :: "generation \<Rightarrow> expr config" where
  "config_of gen = \<lparr>get_source_priority = chain_of gen\<rparr>"

text \<open>Modelled from the spec: the names of the parameters of a generation, each once.\<close>

definition param_names :: "generation \<Rightarrow> string list" where
  "param_names gen = remdups (map pd_name gen)"

text \<open>
  Modelled from the spec: the reference graph of cycle detection (4.3), in which an edge
  runs from a calculated parameter to each identifier its formulas refer to.
\<close>

fun source_idents :: "expr Source \<Rightarrow> string list" where
  "source_idents (Calculated f) = idents f"
| "source_idents s = []"

definition deps :: "generation \<Rightarrow> string \<Rightarrow> string list" where
  "deps gen p = concat (map source_idents (chain_of gen p))"

definition ref_graph :: "generation \<Rightarrow> (string \<times> string) set" where
  "ref_graph gen = {(p, i). p \<in> set (param_names gen) \<and> i \<in> set (deps gen p)}"

text \<open>
  Modelled from the spec: a \<^verbatim>\<open>ConfigurationError\<close> names a parameter and the identifier it
  refers to that is not defined, or the parameters held up by a cycle (4.1).
\<close>

datatype ConfigurationError =
    UnknownReference string string
  | CyclicReference "string list"

text \<open>Modelled from the spec: the references to names the generation does not define (4.1).\<close>

definition unknown_refs :: "generation \<Rightarrow> (string \<times> string) list" where
  "unknown_refs gen =
     concat (map (\<lambda>p. map (Pair p) (filter (\<lambda>i. i \<notin> set (param_names gen)) (deps gen p)))
                 (param_names gen))"

text \<open>
  Modelled from the spec: the topological order computed once per generation (4.4). A
  parameter is ready once every parameter it refers to has its place in the order; the
  ready ones are placed, and the rest is tried again. When none of the pending parameters
  is ready they lie on or behind a cycle, and they are the error's payload.
\<close>

definition ready :: "generation \<Rightarrow> string list \<Rightarrow> string \<Rightarrow> bool" where
  "ready gen placed p = list_all (\<lambda>i. i \<in> set placed) (deps gen p)"

function topo_order :: "generation \<Rightarrow> string list \<Rightarrow> string list \<Rightarrow> ConfigurationError + string list" where
  "topo_order gen pending placed =
     (if pending = [] then Inr placed
      else if filter (ready gen placed) pending = [] then Inl (CyclicReference pending)
      else topo_order gen (filter (\<lambda>p. \<not> ready gen placed p) pending)
                          (placed @ filter (ready gen placed) pending))"
  by pat_completeness auto
termination
proof (relation "measure (\<lambda>(gen, pending, placed). length pending)")
  show "wf (measure (\<lambda>(gen, pending, placed). length pending))" by simp
next
  fix gen :: generation and pending placed :: "string list"
  assume "filter (ready gen placed) pending \<noteq> []"
  then obtain p where "p \<in> set pending" "ready gen placed p"
    by (auto simp: filter_empty_conv)
  then have "length (filter (\<lambda>p. \<not> ready gen placed p) pending) < length pending"
    by (intro length_filter_less) auto
  then show "((gen, filter (\<lambda>p. \<not> ready gen placed p) pending,
                placed @ filter (ready gen placed) pending), (gen, pending, placed))
             \<in> measure (\<lambda>(gen, pending, placed). length pending)"
    by simp
qed

declare topo_order.simps [simp del]

text \<open>
  Modelled from the spec: the validation of \<^verbatim>\<open>Load\<close> (4.1): every reference is to a defined
  parameter and the reference graph is acyclic.
\<close>

definition validate :: "generation \<Rightarrow> ConfigurationError + string list" where
  "validate gen =
     (case unknown_refs gen of
        (p, i) # _ \<Rightarrow> Inl (UnknownReference p i)
      | [] \<Rightarrow> topo_order gen (param_names gen) [])"

text \<open>
  Modelled from the spec: the engine holds the active generation with its evaluation
  order, the published snapshot and the time of its tick. \<^verbatim>\<open>Load(defs) error\<close> returns the
  error, or \<open>None\<close> for \<^verbatim>\<open>nil\<close>, with the engine after the call.
\<close>

record engine =
  active :: generation
  eval_order :: "string list"
  published :: resolved
  tick_time :: nat

text \<open>
  Modelled from the spec: \<^verbatim>\<open>Load\<close> swaps in the new generation or rejects it and leaves the
  engine as it was (4.1).
\<close>

definition Load :: "generation \<Rightarrow> engine \<Rightarrow> ConfigurationError option \<times> engine" where
  "Load defs e =
     (case validate defs of
        Inl err \<Rightarrow> (Some err, e)
      | Inr ord \<Rightarrow> (None, e\<lparr>active := defs, eval_order := ord\<rparr>))"

text \<open>
  Modelled from the spec: one tick resolves the parameters in evaluation order (4.4), each
  with the resolver of the plan; a formula sees the results of the parameters resolved
  before it in this tick. The resolver raises nothing with \<open>compute_resolved\<close>; were it
  to, the parameter would have no usable value.
\<close>

definition resolve_one :: "expr config \<Rightarrow> live_data \<Rightarrow> resolved \<Rightarrow> string \<Rightarrow> ParameterResult" where
  "resolve_one config live res p =
     (case resolve_parameter range_valid (compute_resolved res) p config live of
        Inr r \<Rightarrow> r
      | Inl e \<Rightarrow> mk_result None ''NONE'' ''BAD'')"

fun resolve_all :: "expr config \<Rightarrow> live_data \<Rightarrow> string list \<Rightarrow> resolved \<Rightarrow> resolved" where
  "resolve_all config live [] res = res"
| "resolve_all config live (p # ps) res =
     resolve_all config live ps (res(p \<mapsto> resolve_one config live res p))"

text \<open>
  Modelled from the spec: a tick publishes the results of all parameters as one new
  snapshot, resolved from nothing but the live data and the active generation (4.4, 4.5).
\<close>

definition tick :: "live_data \<Rightarrow> nat \<Rightarrow> engine \<Rightarrow> engine" where
  "tick live now e =
     e\<lparr>published := resolve_all (config_of (active e)) live (eval_order e) Map.empty,
       tick_time := now\<rparr>"

text \<open>
  Modelled from the spec: an order is topological when every parameter comes after all
  the parameters it refers to (4.4).
\<close>

definition topological :: "generation \<Rightarrow> string list \<Rightarrow> bool" where
  "topological gen ord =
     (\<forall>k < length ord. \<forall>i \<in> set (deps gen (ord ! k)). i \<in> set (take k ord))"

section \<open>The dashboard and the Modbus mapping page\<close>

subsection \<open>\<^verbatim>\<open>getQuality\<close> (Dashboard)\<close>

text \<open>
  \<^verbatim>\<open>sourceAliases\<close> and \<^verbatim>\<open>sources\<close> are plain JavaScript objects. A lookup \<^verbatim>\<open>obj[key]\<close>
  finds the object's own property of that name; failing that, for one of the names every
  object inherits from \<^verbatim>\<open>Object.prototype\<close>, the inherited member (a function, or the
  prototype itself for \<^verbatim>\<open>__proto__\<close>); and \<^verbatim>\<open>undefined\<close> otherwise. An inherited member is
  truthy and cannot be iterated.
\<close>

definition object_prototype_names :: "string list" where
  "object_prototype_names =
     [''constructor'', ''__proto__'', ''__defineGetter__'', ''__defineSetter__'',
      ''__lookupGetter__'', ''__lookupSetter__'', ''hasOwnProperty'', ''isPrototypeOf'',
      ''propertyIsEnumerable'', ''toString'', ''toLocaleString'', ''valueOf'']"

datatype 'a property = Own 'a | Inherited | Undefined

definition get_property :: "(string \<rightharpoonup> 'a) \<Rightarrow> string \<Rightarrow> 'a property" where
  "get_property obj key =
     (case obj key of
        Some v \<Rightarrow> Own v
      | None \<Rightarrow> if key \<in> set object_prototype_names then Inherited else Undefined)"

text \<open>
  \<^verbatim>\<open>sources\<close> is the \<^verbatim>\<open>sources\<close> record of the live data, or \<^verbatim>\<open>{}\<close> when the live data has
  none; its own properties are tags, which are strings, and a tag is truthy when it is
  not empty. What \<^verbatim>\<open>getQuality\<close> returns (its type is \<^verbatim>\<open>any\<close>) is a tag or an inherited
  member of \<^verbatim>\<open>sources\<close>.
\<close>

datatype quality_value = Tag string | Member

datatype js_error = TypeError

definition sourceAliases :: "string \<rightharpoonup> string list" where
  "sourceAliases =
     [''engine_oil_press'' \<mapsto> [''engine_oil_press'', ''engine_oil_pressure''],
      ''comp_oil_press'' \<mapsto> [''comp_oil_press'', ''comp_oil_pressure'']]"

text \<open>
  \<^verbatim>\<open>const keys = sourceAliases[param] || [param]\<close>, as the loop \<^verbatim>\<open>for (const key of keys)\<close>
  takes it: an array of keys, or the \<^verbatim>\<open>TypeError\<close> the loop throws when \<^verbatim>\<open>keys\<close> is an
  inherited member, which is truthy and not iterable.
\<close>

definition alias_keys :: "string \<Rightarrow> js_error + string list" where
  "alias_keys param =
     (case get_property sourceAliases param of
        Own ks \<Rightarrow> Inr ks
      | Inherited \<Rightarrow> Inl TypeError
      | Undefined \<Rightarrow> Inr [param])"

text \<open>The loop: \<^verbatim>\<open>if (sources[key]) return sources[key]\<close>.\<close>

fun first_source :: "(string \<rightharpoonup> string) \<Rightarrow> string list \<Rightarrow> quality_value option" where
  "first_source sources [] = None"
| "first_source sources (key # keys) =
     (case get_property sources key of
        Own q \<Rightarrow> if q \<noteq> [] then Some (Tag q) else first_source sources keys
      | Inherited \<Rightarrow> Some Member
      | Undefined \<Rightarrow> first_source sources keys)"

definition getQuality :: "(string \<rightharpoonup> string) \<Rightarrow> string \<Rightarrow> js_error + quality_value" where
  "getQuality sources param =
     (case alias_keys param of
        Inl err \<Rightarrow> Inl err
      | Inr keys \<Rightarrow>
          (case first_source sources keys of
             Some q \<Rightarrow> Inr q
           | None \<Rightarrow> Inr (Tag ''LIVE'')))"

text \<open>The parameters the dashboard asks the quality of.\<close>

definition dashboard_params :: "string list" where
  "dashboard_params =
     [''engine_rpm'', ''engine_oil_press'', ''engine_oil_temp'', ''jacket_water_temp'',
      ''comp_oil_press'', ''comp_oil_temp'']"

subsection \<open>\<^verbatim>\<open>applyCalibrationDialog\<close> (Modbus mapping page)\<close>

text \<open>
  A JavaScript number is finite, an infinity or \<^verbatim>\<open>NaN\<close>. \<^verbatim>\<open>Number(text)\<close> and
  \<^verbatim>\<open>text.trim()\<close> are the language's own functions and parameters of the model.
\<close>

datatype number = Finite real | PosInfinity | NegInfinity | NaN

fun isFinite :: "number \<Rightarrow> bool" where
  "isFinite (Finite x) = True"
| "isFinite n = False"

datatype RegType = Analog | Discrete

text \<open>
  The fields of \<^verbatim>\<open>RegisterMapping\<close> the dialog reads or writes; \<open>None\<close> is \<^verbatim>\<open>null\<close> or a
  field that is not set. The other fields of the interface are copied by the spread
  \<^verbatim>\<open>...current\<close>; they are the extension of the record, which an update keeps.
\<close>

record RegisterMapping =
  address :: int
  name :: string
  description :: string
  unit :: string
  scale :: number
  offset :: number
  reg_type :: "RegType option"
  min_reg :: "number option"
  max_reg :: "number option"
  valueMode :: "ValueMode option"
  manualValue :: "number option"

record CalibrationDialogState =
  draft_unit :: string
  draft_min :: string
  draft_max :: string
  draft_scale :: string
  draft_offset :: string
  draft_valueMode :: ValueMode
  draft_manualValue :: string

text \<open>The register the dialog writes, from the register \<^verbatim>\<open>current\<close> and the draft.\<close>

definition apply_draft ::
  "(string \<Rightarrow> number) \<Rightarrow> (string \<Rightarrow> string) \<Rightarrow>
   CalibrationDialogState \<Rightarrow> RegisterMapping \<Rightarrow> RegisterMapping" where
  "apply_draft Number trim draft current =
     (let regType = (case reg_type current of Some t \<Rightarrow> t | None \<Rightarrow> Analog);
          written = current\<lparr>
            unit := (if draft_unit draft = ''none'' then [] else draft_unit draft),
            scale := (if isFinite (Number (draft_scale draft)) then Number (draft_scale draft)
                      else Finite 1),
            offset := (if isFinite (Number (draft_offset draft)) then Number (draft_offset draft)
                       else Finite 0),
            valueMode := Some (draft_valueMode draft),
            manualValue :=
              (if draft_valueMode draft = MANUAL
               then (if trim (draft_manualValue draft) = [] then None
                     else Some (Number (draft_manualValue draft)))
               else None)\<rparr>
      in if regType = Analog
         then written\<lparr>
            min_reg := (if trim (draft_min draft) = [] then None
                        else Some (Number (draft_min draft))),
            max_reg := (if trim (draft_max draft) = [] then None
                        else Some (Number (draft_max draft)))\<rparr>
         else written)"

text \<open>
  The state of the page the dialog touches. \<^verbatim>\<open>calibrationIndex\<close> is \<open>None\<close> for \<^verbatim>\<open>null\<close>;
  an index with no register leaves the registers as they are.
\<close>

record page_state =
  registers :: "RegisterMapping list"
  calibrationIndex :: "nat option"
  calibrationDraft :: CalibrationDialogState

definition applyCalibrationDialog ::
  "(string \<Rightarrow> number) \<Rightarrow> (string \<Rightarrow> string) \<Rightarrow> page_state \<Rightarrow> page_state" where
  "applyCalibrationDialog Number trim st =
     (case calibrationIndex st of
        None \<Rightarrow> st
      | Some i \<Rightarrow>
          st\<lparr>registers :=
               (if i < length (registers st)
                then (registers st)[i := apply_draft Number trim (calibrationDraft st)
                                             (registers st ! i)]
                else registers st),
             calibrationIndex := None\<rparr>)"

text \<open>A register keeps a manual value only in manual mode.\<close>

definition manual_only_in_manual_mode :: "RegisterMapping \<Rightarrow> bool" where
  "manual_only_in_manual_mode r = (manualValue r \<noteq> None \<longrightarrow> valueMode r = Some MANUAL)"

section \<open>Example configurations\<close>

text \<open>
  The source list of the plan's example for stage 1 suction temperature,
  \<^verbatim>\<open>["modbus:40090", "calculated:interstage_cooler", "manual:80", "default:75"]\<close>, with a
  formula that is only named, and a \<^verbatim>\<open>compute\<close> that has no value for it.
\<close>

definition suction_temp_sources :: "string Source list" where
  "suction_temp_sources =
     [Modbus ''40090'' (0, 200), Calculated ''interstage_cooler'', Manual 80, Default 75]"

definition plan_config :: "string config" where
  "plan_config = \<lparr>get_source_priority = (\<lambda>param_name. suction_temp_sources)\<rparr>"

definition no_calculation :: "string \<Rightarrow> live_data \<Rightarrow> string config \<Rightarrow> exn + real" where
  "no_calculation formula live config = Inl CalculationError"

definition live_40090 :: live_data where
  "live_40090 = [''40090'' \<mapsto> 82.3]"

definition no_live_data :: live_data where
  "no_live_data = Map.empty"

text \<open>A sample of register 40090 taken at time 0, and a snapshot holding it.\<close>

definition old_sample :: sample where
  "old_sample = \<lparr>sample_value = 82.3, sampledAt = 0\<rparr>"

definition old_snapshot :: "string \<rightharpoonup> sample" where
  "old_snapshot = [''40090'' \<mapsto> old_sample]"

text \<open>The same snapshot with other sample times.\<close>

definition restamp :: "(string \<Rightarrow> int) \<Rightarrow> (string \<rightharpoonup> sample) \<Rightarrow> (string \<rightharpoonup> sample)" where
  "restamp t snapshot = (\<lambda>channel. map_option (\<lambda>s. s\<lparr>sampledAt := t channel\<rparr>) (snapshot channel))"

text \<open>
  The end-to-end scenario of the spec (section 8): \<^verbatim>\<open>SuctionTemp1\<close> with the chain
  \<^verbatim>\<open>[Live(reg1), Calculated("DischargeTempUp - 15"), Manual(80), Default(75)]\<close> in manual
  mode, beside a \<^verbatim>\<open>DischargeTempUp\<close> that has a live source only.
\<close>

definition suction_temp_def :: ParameterDef where
  "suction_temp_def =
     \<lparr>pd_name = ''SuctionTemp1'', pd_unit = ''F'', pd_valueMode = MANUAL,
      pd_sourceChain =
        [Modbus ''reg1'' (0, 200), Calculated (Sub (Ident ''DischargeTempUp'') (Num 15)),
         Manual 80, Default 75]\<rparr>"

definition discharge_temp_def :: ParameterDef where
  "discharge_temp_def =
     \<lparr>pd_name = ''DischargeTempUp'', pd_unit = ''F'', pd_valueMode = LIVE,
      pd_sourceChain = [Modbus ''reg2'' (0, 400)]\<rparr>"

definition scenario_gen :: generation where
  "scenario_gen = [discharge_temp_def, suction_temp_def]"

text \<open>The same scenario with manual mode switched off.\<close>

definition scenario_gen_manual_off :: generation where
  "scenario_gen_manual_off = [discharge_temp_def, suction_temp_def\<lparr>pd_valueMode := LIVE\<rparr>]"

text \<open>A register of the mapping page in live mode, and the dialog open on it with a manual value of 80.\<close>

definition example_register :: RegisterMapping where
  "example_register =
     \<lparr>address = 40090, name = ''stg1_suction_temp'', description = ''Stage 1 suction temperature'',
      unit = ''F'', scale = Finite 1, offset = Finite 0, reg_type = Some Analog,
      min_reg = None, max_reg = None, valueMode = Some LIVE, manualValue = None\<rparr>"

definition example_draft :: CalibrationDialogState where
  "example_draft =
     \<lparr>draft_unit = ''none'', draft_min = '''', draft_max = ''200'', draft_scale = ''1'',
      draft_offset = ''0'', draft_valueMode = MANUAL, draft_manualValue = ''80''\<rparr>"

definition example_page :: page_state where
  "example_page =
     \<lparr>registers = [example_register], calibrationIndex = Some 0, calibrationDraft = example_draft\<rparr>"

text \<open>\<^verbatim>\<open>Number\<close> and \<^verbatim>\<open>trim\<close> on the texts of the example.\<close>

definition example_Number :: "string \<Rightarrow> number" where
  "example_Number text =
     (if text = ''80'' then Finite 80 else if text = ''200'' then Finite 200
      else if text = ''1'' then Finite 1 else if text = ''0'' then Finite 0
      else if text = '''' then Finite 0 else NaN)"

definition example_trim :: "string \<Rightarrow> string" where
  "example_trim text = (if text = ''  '' then [] else text)"

text \<open>The dialog in live mode with a manual value still typed in, and in manual mode with a blank field.\<close>

definition example_page_live :: page_state where
  "example_page_live =
     example_page\<lparr>calibrationDraft := example_draft\<lparr>draft_valueMode := LIVE\<rparr>\<rparr>"

definition example_page_blank :: page_state where
  "example_page_blank =
     example_page\<lparr>calibrationDraft := example_draft\<lparr>draft_manualValue := ''  ''\<rparr>\<rparr>"

text \<open>
  The dependency example of the spec (section 8): \<^verbatim>\<open>A\<close> has a live source on \<^verbatim>\<open>reg1\<close> and the
  default 10, \<^verbatim>\<open>B\<close> is calculated as \<^verbatim>\<open>A * 2\<close>. The cycle example: \<^verbatim>\<open>A = B + 1\<close>,
  \<^verbatim>\<open>B = A * 2\<close>. And a generation whose formula names a parameter that is not defined.
\<close>

definition dependency_gen :: generation where
  "dependency_gen =
     [\<lparr>pd_name = ''A'', pd_unit = ''F'', pd_valueMode = LIVE,
       pd_sourceChain = [Modbus ''reg1'' (0, 100), Default 10]\<rparr>,
      \<lparr>pd_name = ''B'', pd_unit = ''F'', pd_valueMode = LIVE,
       pd_sourceChain = [Calculated (Mul (Ident ''A'') (Num 2))]\<rparr>]"

definition cyclic_gen :: generation where
  "cyclic_gen =
     [\<lparr>pd_name = ''A'', pd_unit = ''F'', pd_valueMode = LIVE,
       pd_sourceChain = [Calculated (Add (Ident ''B'') (Num 1))]\<rparr>,
      \<lparr>pd_name = ''B'', pd_unit = ''F'', pd_valueMode = LIVE,
       pd_sourceChain = [Calculated (Mul (Ident ''A'') (Num 2))]\<rparr>]"

definition dangling_gen :: generation where
  "dangling_gen =
     [\<lparr>pd_name = ''B'', pd_unit = ''F'', pd_valueMode = LIVE,
       pd_sourceChain = [Calculated (Mul (Ident ''A'') (Num 2))]\<rparr>]"

text \<open>An engine running the dependency example, with an empty snapshot published at time 0.\<close>

definition running_engine :: engine where
  "running_engine =
     \<lparr>active = dependency_gen, eval_order = [''A'', ''B''], published = Map.empty, tick_time = 0\<rparr>"

text \<open>A snapshot in which a parameter resolved to \<^verbatim>\<open>BAD\<close>.\<close>

definition bad_upstream :: resolved where
  "bad_upstream = [''DischargeTempUp'' \<mapsto> mk_result None ''NONE'' ''BAD'']"

text \<open>
  The dependency example beside an independent parameter, in two engines that differ in
  the evaluation order, the snapshot published before and the time of the last tick.
\<close>

definition mixed_gen :: generation where
  "mixed_gen = dependency_gen @ [discharge_temp_def]"

definition engine_one :: engine where
  "engine_one =
     \<lparr>active = mixed_gen, eval_order = [''A'', ''B'', ''DischargeTempUp''],
      published = Map.empty, tick_time = 0\<rparr>"

definition engine_two :: engine where
  "engine_two =
     \<lparr>active = mixed_gen, eval_order = [''DischargeTempUp'', ''A'', ''B''],
      published = bad_upstream, tick_time = 7\<rparr>"

definition live_regs :: live_data where
  "live_regs = [''reg1'' \<mapsto> 50, ''reg2'' \<mapsto> 150]"

section \<open>Properties of the source chain\<close>

lemma resolve_sources_skip_failed:
  "\<forall>s \<in> set failed. try_source is_valid compute config live s = None \<Longrightarrow>
   resolve_sources is_valid compute config live (failed @ rest) =
   resolve_sources is_valid compute config live rest"
  by (induction failed) simp_all

lemma badge_mk_result [simp]:
  "badge (mk_result v ''MODBUS'' q) = ''LIVE''"
  "badge (mk_result v ''CALCULATED'' q) = ''CALCULATED''"
  "badge (mk_result v ''MANUAL'' q) = ''MANUAL''"
  "badge (mk_result v ''DEFAULT'' q) = ''DEFAULT''"
  "badge (mk_result v ''NONE'' q) = ''BAD''"
  by (simp_all add: badge_def mk_result_def)

lemma mk_result_sel [simp]:
  "result_value (mk_result v s q) = v"
  "source (mk_result v s q) = s"
  "quality (mk_result v s q) = q"
  by (simp_all add: mk_result_def)

lemma plan_chain_split:
  "get_source_priority plan_config param_name
     = [Modbus ''40090'' (0, 200), Calculated ''interstage_cooler''] @ Manual 80 # [Default 75]"
  by (simp add: plan_config_def suction_temp_sources_def)

lemma plan_chain_fails_without_live_data:
  "\<forall>s \<in> set [Modbus ''40090'' (0, 200), Calculated ''interstage_cooler''].
     try_source range_valid no_calculation plan_config no_live_data s = None"
  by (simp add: no_live_data_def no_calculation_def)

text \<open>
  Claim C1. The sources of a parameter are tried strictly in order and the first one that
  yields a result decides: when the sources \<open>failed\<close> in front of the source \<open>e\<close> all
  fail, the resolver returns exactly the outcome of \<open>e\<close>, whatever the sources \<open>later\<close>
  behind it are. In particular, for a chain of a live, a calculated, a manual and a
  default source whose live value is present and valid, the result is the live value,
  tagged \<^verbatim>\<open>MODBUS\<close>/\<^verbatim>\<open>GOOD\<close> by the resolver and shown under the badge \<^verbatim>\<open>LIVE\<close>, whatever
  the other three sources hold.
\<close>

theorem first_succeeding_source_decides:
  "(get_source_priority config p = failed @ e # later \<and>
    (\<forall>s \<in> set failed. try_source is_valid compute config live s = None) \<and>
    try_source is_valid compute config live e = Some outcome
    \<longrightarrow> resolve_parameter is_valid compute p config live = outcome)
   \<and>
   (get_source_priority config p = [Modbus register rng, Calculated formula, Manual mv, Default dv] \<and>
    live register = Some v \<and> is_valid v rng
    \<longrightarrow> resolve_parameter is_valid compute p config live = Inr (mk_result (Some v) ''MODBUS'' ''GOOD'')
        \<and> badge (mk_result (Some v) ''MODBUS'' ''GOOD'') = ''LIVE'')"
  by (simp add: resolve_parameter_def resolve_sources_skip_failed)

theorem first_succeeding_source_decides_witness:
  "resolve_parameter range_valid no_calculation ''suction_temp_1'' plan_config no_live_data
     = Inr (mk_result (Some 80) ''MANUAL'' ''STATIC'') \<and>
   resolve_parameter range_valid no_calculation ''suction_temp_1'' plan_config live_40090
     = Inr (mk_result (Some 82.3) ''MODBUS'' ''GOOD'')"
proof -
  have manual: "try_source range_valid no_calculation plan_config no_live_data (Manual 80)
      = Some (Inr (mk_result (Some 80) ''MANUAL'' ''STATIC''))"
    by simp
  have chain: "get_source_priority plan_config ''suction_temp_1''
      = [Modbus ''40090'' (0, 200), Calculated ''interstage_cooler'', Manual 80, Default 75]"
    by (simp add: plan_config_def suction_temp_sources_def)
  have live: "live_40090 ''40090'' = Some 82.3" "range_valid 82.3 (0, 200)"
    by (simp_all add: live_40090_def)
  from first_succeeding_source_decides [where config = plan_config and p = "''suction_temp_1''"
      and failed = "[Modbus ''40090'' (0, 200), Calculated ''interstage_cooler'']"
      and e = "Manual 80" and later = "[Default 75]" and is_valid = range_valid
      and compute = no_calculation and live = no_live_data
      and outcome = "Inr (mk_result (Some 80) ''MANUAL'' ''STATIC'')"]
    plan_chain_split plan_chain_fails_without_live_data manual
  have 1: "resolve_parameter range_valid no_calculation ''suction_temp_1'' plan_config no_live_data
     = Inr (mk_result (Some 80) ''MANUAL'' ''STATIC'')"
    by blast
  from first_succeeding_source_decides [where config = plan_config and p = "''suction_temp_1''"
      and register = "''40090''" and rng = "(0, 200)" and formula = "''interstage_cooler''"
      and mv = 80 and dv = 75 and is_valid = range_valid
      and compute = no_calculation and live = live_40090 and v = "82.3"]
    chain live
  have 2: "resolve_parameter range_valid no_calculation ''suction_temp_1'' plan_config live_40090
     = Inr (mk_result (Some 82.3) ''MODBUS'' ''GOOD'')"
    by blast
  from 1 2 show ?thesis by simp
qed

text \<open>
  Claim C3, as amended. A live (Modbus) source fails, and the chain goes on to the next
  source, exactly when its register has no value in the live data or the value is rejected
  by the range check (with the range check of the spec: the value lies outside the range).
  The resolver is given neither a sample time nor a staleness limit: giving the samples of
  a snapshot other times changes no result.
\<close>

theorem live_source_fails_iff:
  "(try_source range_valid compute config live (Modbus register (lo, hi)) = None \<longleftrightarrow>
      live register = None \<or> (\<exists>v. live register = Some v \<and> (v < lo \<or> hi < v)))
   \<and> (try_source is_valid compute config live (Modbus register rng) = None \<longleftrightarrow>
      live register = None \<or> (\<exists>v. live register = Some v \<and> \<not> is_valid v rng))
   \<and> resolve_parameter is_valid compute p config (live_data_of (restamp t snapshot))
      = resolve_parameter is_valid compute p config (live_data_of snapshot)"
proof -
  have "live_data_of (restamp t snapshot) = live_data_of snapshot"
    by (rule ext) (simp add: live_data_of_def restamp_def option.map_comp comp_def)
  then show ?thesis
    by (auto split: option.splits)
qed

theorem live_source_fails_iff_witness:
  "try_source range_valid no_calculation plan_config no_live_data (Modbus ''40090'' (0, 200)) = None
   \<and> try_source range_valid no_calculation plan_config [''40090'' \<mapsto> 250] (Modbus ''40090'' (0, 200)) = None
   \<and> resolve_parameter range_valid no_calculation ''suction_temp_1'' plan_config
        (live_data_of (restamp (\<lambda>channel. 1000) old_snapshot))
      = resolve_parameter range_valid no_calculation ''suction_temp_1'' plan_config
        (live_data_of old_snapshot)"
  using live_source_fails_iff [where compute = no_calculation and config = plan_config
      and live = no_live_data and register = "''40090''" and lo = 0 and hi = 200
      and is_valid = range_valid and p = "''suction_temp_1''" and t = "\<lambda>channel. 1000"
      and snapshot = old_snapshot]
    live_source_fails_iff [where compute = no_calculation and config = plan_config
      and live = "[''40090'' \<mapsto> 250]" and register = "''40090''" and lo = 0 and hi = 200]
  by (simp add: no_live_data_def)

text \<open>
  Claim C3 as stated fails: the sample of register 40090 was taken at time 0, which at
  time 1000 is older than a staleness limit of 5, and the live source still yields its
  value 82.3 as the result.
\<close>

theorem stale_sample_is_live_counterexample:
  "stale 1000 5 old_sample \<and>
   try_source range_valid no_calculation plan_config (live_data_of old_snapshot)
     (Modbus ''40090'' (0, 200)) = Some (Inr (mk_result (Some 82.3) ''MODBUS'' ''GOOD'')) \<and>
   resolve_parameter range_valid no_calculation ''suction_temp_1'' plan_config
     (live_data_of old_snapshot) = Inr (mk_result (Some 82.3) ''MODBUS'' ''GOOD'')"
  by (simp add: stale_def old_sample_def old_snapshot_def live_data_of_def
      resolve_parameter_def plan_config_def suction_temp_sources_def)

text \<open>
  Claim C4. When every source of a parameter fails (so also when the chain is empty or
  has no default), the resolver returns a result, not an exception: its value is absent
  and its quality is \<^verbatim>\<open>BAD\<close>, shown under the badge \<^verbatim>\<open>BAD\<close>.
\<close>

theorem exhausted_chain_is_bad:
  "\<forall>s \<in> set (get_source_priority config p). try_source is_valid compute config live s = None \<Longrightarrow>
   \<exists>r. resolve_parameter is_valid compute p config live = Inr r \<and>
       result_value r = None \<and> quality r = ''BAD'' \<and> badge r = ''BAD''"
  using resolve_sources_skip_failed [where rest = "[]" and failed = "get_source_priority config p"
      and is_valid = is_valid and compute = compute and config = config and live = live]
  by (simp add: resolve_parameter_def)

theorem exhausted_chain_is_bad_witness:
  "\<exists>r. resolve_parameter range_valid no_calculation ''suction_temp_1''
        \<lparr>get_source_priority = (\<lambda>param_name. [Modbus ''40090'' (0, 200), Calculated ''interstage_cooler''])\<rparr>
        no_live_data = Inr r \<and>
       result_value r = None \<and> quality r = ''BAD'' \<and> badge r = ''BAD''"
  using exhausted_chain_is_bad [where is_valid = range_valid and compute = no_calculation
      and p = "''suction_temp_1''" and live = no_live_data
      and config = "\<lparr>get_source_priority = (\<lambda>param_name. [Modbus ''40090'' (0, 200), Calculated ''interstage_cooler''])\<rparr>"]
  by (simp add: no_live_data_def no_calculation_def)

lemma chain_of_manual_mode:
  "Manual v \<in> set (chain_of gen q) \<Longrightarrow>
   \<exists>d. find (\<lambda>d. pd_name d = q) gen = Some d \<and> pd_valueMode d = MANUAL"
  by (cases "find (\<lambda>d. pd_name d = q) gen") (simp_all add: chain_of_def effective_chain_def)

text \<open>
  Claim C8. A manual source that is reached, all sources in front of it having failed,
  yields its value with no condition; the result is tagged \<^verbatim>\<open>MANUAL\<close>/\<^verbatim>\<open>STATIC\<close> by the
  resolver and shown under the badge \<^verbatim>\<open>MANUAL\<close>, one of the five tags. In the chain the
  registry hands to the resolver, a manual source occurs only for a parameter whose
  \<^verbatim>\<open>valueMode\<close> is \<^verbatim>\<open>MANUAL\<close>.
\<close>

theorem reached_manual_source_succeeds:
  "(get_source_priority config p = failed @ Manual v # later \<and>
    (\<forall>s \<in> set failed. try_source is_valid compute config live s = None)
    \<longrightarrow> (\<exists>r. resolve_parameter is_valid compute p config live = Inr r \<and>
             result_value r = Some v \<and> source r = ''MANUAL'' \<and> quality r = ''STATIC'' \<and>
             badge r = ''MANUAL'' \<and>
             badge r \<in> set [''LIVE'', ''CALCULATED'', ''MANUAL'', ''DEFAULT'', ''BAD'']))
   \<and> try_source is_valid compute config live (Manual v) \<noteq> None
   \<and> (Manual v \<in> set (get_source_priority (config_of gen) p)
      \<longrightarrow> (\<exists>d. find (\<lambda>d. pd_name d = p) gen = Some d \<and> pd_valueMode d = MANUAL))"
  by (simp add: resolve_parameter_def resolve_sources_skip_failed config_of_def chain_of_manual_mode)

theorem reached_manual_source_succeeds_witness:
  "(\<exists>r. resolve_parameter range_valid no_calculation ''suction_temp_1'' plan_config no_live_data = Inr r \<and>
        result_value r = Some 80 \<and> source r = ''MANUAL'' \<and> quality r = ''STATIC'' \<and>
        badge r = ''MANUAL'')
   \<and> Manual 80 \<in> set (get_source_priority (config_of scenario_gen) ''SuctionTemp1'')
   \<and> (\<exists>d. find (\<lambda>d. pd_name d = ''SuctionTemp1'') scenario_gen = Some d \<and> pd_valueMode d = MANUAL)"
proof -
  have present: "Manual 80 \<in> set (get_source_priority (config_of scenario_gen) ''SuctionTemp1'')"
    by (simp add: config_of_def chain_of_def scenario_gen_def suction_temp_def_def
        discharge_temp_def_def effective_chain_def)
  from reached_manual_source_succeeds [where config = plan_config and p = "''suction_temp_1''"
      and failed = "[Modbus ''40090'' (0, 200), Calculated ''interstage_cooler'']"
      and v = 80 and later = "[Default 75]" and is_valid = range_valid
      and compute = no_calculation and live = no_live_data]
    plan_chain_split plan_chain_fails_without_live_data
  have 1: "\<exists>r. resolve_parameter range_valid no_calculation ''suction_temp_1'' plan_config no_live_data = Inr r \<and>
        result_value r = Some 80 \<and> source r = ''MANUAL'' \<and> quality r = ''STATIC'' \<and>
        badge r = ''MANUAL''"
    by blast
  from reached_manual_source_succeeds [where gen = scenario_gen and p = "''SuctionTemp1''" and v = 80]
    present
  have 2: "\<exists>d. find (\<lambda>d. pd_name d = ''SuctionTemp1'') scenario_gen = Some d \<and> pd_valueMode d = MANUAL"
    by blast
  from 1 present 2 show ?thesis by blast
qed

section \<open>Properties of the formula evaluator and the scheduler\<close>

lemma try_source_resolved_returns:
  "try_source range_valid (compute_resolved res) config live s = None \<or>
   (\<exists>r. try_source range_valid (compute_resolved res) config live s = Some (Inr r))"
  by (cases s) (auto simp: compute_resolved_def split: option.splits)

lemma resolve_sources_resolved_returns:
  "\<exists>r. resolve_sources range_valid (compute_resolved res) config live chain = Inr r"
proof (induction chain)
  case Nil
  show ?case by simp
next
  case (Cons s chain)
  from try_source_resolved_returns [of res config live s] Cons show ?case
    by auto
qed

lemma failure_propagates:
  "g \<in> subformulas f \<Longrightarrow> eval_formula res g = None \<Longrightarrow> eval_formula res f = None"
  by (induction f) (auto simp: binary_def unary_def split: option.splits)

text \<open>
  Claim C5. In a formula, a division by zero, the logarithm of a non-positive number, the
  square root of a negative number, and an identifier whose parameter has no result or
  resolved to \<^verbatim>\<open>BAD\<close> are evaluation failures, and a failure anywhere inside a formula is
  the failure of the formula. A calculated source whose formula fails
  (whose \<^verbatim>\<open>compute\<close> raises \<^verbatim>\<open>CalculationError\<close>) only fails itself: the resolver goes on
  with the rest of the chain. With this evaluator the resolver always returns a result
  and never an exception.
\<close>

theorem calculation_failure_falls_through:
  "(eval_formula res b = Some 0 \<longrightarrow> eval_formula res (Div a b) = None)
   \<and> (eval_formula res a = Some x \<and> x \<le> 0 \<longrightarrow> eval_formula res (FnLn a) = None)
   \<and> (eval_formula res a = Some x \<and> x < 0 \<longrightarrow> eval_formula res (FnSqrt a) = None)
   \<and> (res q = None \<longrightarrow> eval_formula res (Ident q) = None)
   \<and> (res q = Some bad \<and> quality bad = ''BAD'' \<longrightarrow> eval_formula res (Ident q) = None)
   \<and> (g \<in> subformulas f \<and> eval_formula res g = None \<longrightarrow> eval_formula res f = None)
   \<and> (eval_formula res f = None \<longrightarrow>
        resolve_sources range_valid (compute_resolved res) config live (Calculated f # rest)
        = resolve_sources range_valid (compute_resolved res) config live rest)
   \<and> (compute h live' config' = Inl CalculationError \<longrightarrow>
        resolve_sources is_valid compute config' live' (Calculated h # rest')
        = resolve_sources is_valid compute config' live' rest')
   \<and> (\<exists>r. resolve_parameter range_valid (compute_resolved res) p config live = Inr r)"
proof (intro conjI)
  show "\<exists>r. resolve_parameter range_valid (compute_resolved res) p config live = Inr r"
    by (simp add: resolve_parameter_def resolve_sources_resolved_returns)
  show "g \<in> subformulas f \<and> eval_formula res g = None \<longrightarrow> eval_formula res f = None"
    using failure_propagates by blast
qed (auto simp: binary_def unary_def divide_op_def ln_op_def sqrt_op_def ident_value_def
      compute_resolved_def split: option.splits)

theorem calculation_failure_falls_through_witness:
  "eval_formula bad_upstream (Div (Num (- 4)) (Num 0)) = None
   \<and> eval_formula bad_upstream (FnLn (Num 0)) = None
   \<and> eval_formula bad_upstream (FnSqrt (Num (- 4))) = None
   \<and> eval_formula bad_upstream (Ident ''Missing'') = None
   \<and> eval_formula bad_upstream (Ident ''DischargeTempUp'') = None
   \<and> eval_formula bad_upstream (Sub (Ident ''DischargeTempUp'') (Num 15)) = None
   \<and> resolve_sources range_valid (compute_resolved bad_upstream) (config_of scenario_gen)
        no_live_data [Calculated (Sub (Ident ''DischargeTempUp'') (Num 15)), Manual 80, Default 75]
      = Inr (mk_result (Some 80) ''MANUAL'' ''STATIC'')
   \<and> resolve_sources range_valid no_calculation plan_config no_live_data
        [Calculated ''interstage_cooler'', Default 75]
      = Inr (mk_result (Some 75) ''DEFAULT'' ''ASSUMED'')
   \<and> (\<exists>r. resolve_parameter range_valid (compute_resolved bad_upstream) ''SuctionTemp1''
            (config_of scenario_gen) no_live_data = Inr r)"
proof -
  have ev: "eval_formula bad_upstream (Num 0) = Some 0"
    "eval_formula bad_upstream (Num (- 4)) = Some (- 4)"
    by simp_all
  have up: "bad_upstream ''DischargeTempUp'' = Some (mk_result None ''NONE'' ''BAD'')"
    "bad_upstream ''Missing'' = None"
    by (simp_all add: bad_upstream_def)
  note inst = calculation_failure_falls_through [where res = bad_upstream
      and config = "config_of scenario_gen" and live = no_live_data and p = "''SuctionTemp1''"
      and compute = no_calculation and h = "''interstage_cooler''" and live' = no_live_data
      and config' = plan_config and is_valid = range_valid and rest' = "[Default 75]"]
  from inst [where a = "Num (- 4)" and b = "Num 0" and x = "- 4" and q = "''Missing''"] ev up
  have 1: "eval_formula bad_upstream (Div (Num (- 4)) (Num 0)) = None
     \<and> eval_formula bad_upstream (FnSqrt (Num (- 4))) = None
     \<and> eval_formula bad_upstream (Ident ''Missing'') = None
     \<and> (\<exists>r. resolve_parameter range_valid (compute_resolved bad_upstream) ''SuctionTemp1''
            (config_of scenario_gen) no_live_data = Inr r)"
    by simp
  from inst [where a = "Num 0" and x = 0 and q = "''DischargeTempUp''"
      and bad = "mk_result None ''NONE'' ''BAD''"] ev up
  have 2: "eval_formula bad_upstream (FnLn (Num 0)) = None
     \<and> eval_formula bad_upstream (Ident ''DischargeTempUp'') = None"
    by simp
  have inside: "Ident ''DischargeTempUp'' \<in> subformulas (Sub (Ident ''DischargeTempUp'') (Num 15))"
    by simp
  from inst [where f = "Sub (Ident ''DischargeTempUp'') (Num 15)" and g = "Ident ''DischargeTempUp''"]
    inside 2
  have fails: "eval_formula bad_upstream (Sub (Ident ''DischargeTempUp'') (Num 15)) = None"
    by blast
  from inst [where f = "Sub (Ident ''DischargeTempUp'') (Num 15)" and rest = "[Manual 80, Default 75]"]
    fails
  have 3: "resolve_sources range_valid (compute_resolved bad_upstream) (config_of scenario_gen)
        no_live_data [Calculated (Sub (Ident ''DischargeTempUp'') (Num 15)), Manual 80, Default 75]
      = Inr (mk_result (Some 80) ''MANUAL'' ''STATIC'')"
    by simp
  have "no_calculation ''interstage_cooler'' no_live_data plan_config = Inl CalculationError"
    by (simp add: no_calculation_def)
  with inst
  have 4: "resolve_sources range_valid no_calculation plan_config no_live_data
        [Calculated ''interstage_cooler'', Default 75]
      = Inr (mk_result (Some 75) ''DEFAULT'' ''ASSUMED'')"
    by simp
  from 1 2 fails 3 4 show ?thesis by blast
qed

lemma resolve_all_append:
  "resolve_all config live (xs @ ys) res = resolve_all config live ys (resolve_all config live xs res)"
  by (induction xs arbitrary: res) simp_all

text \<open>
  Claim C2. In a tick the formula of a calculated parameter is evaluated against the
  results of the parameters resolved before it in the same tick, whatever source produced
  them, and not against the live data. For \<^verbatim>\<open>A\<close> with a live source and the default \<open>d\<close>,
  and \<^verbatim>\<open>B\<close> calculated as \<^verbatim>\<open>A * 2\<close>: when the live source of \<^verbatim>\<open>A\<close> fails, \<^verbatim>\<open>A\<close> resolves to
  its default and \<^verbatim>\<open>B\<close> to \<open>d * 2\<close>, tagged \<^verbatim>\<open>CALCULATED\<close>; with the default 10 that is 20.
\<close>

theorem calculated_uses_resolved_values:
  "resolve_all config live (ps @ [q]) res q =
     Some (resolve_one config live (resolve_all config live ps res) q)
   \<and> (A \<noteq> B \<and> eval_order e = [A, B] \<and>
      chain_of (active e) A = [Modbus register rng, Default d] \<and>
      chain_of (active e) B = [Calculated (Mul (Ident A) (Num 2))] \<and>
      (live register = None \<or> (\<exists>v. live register = Some v \<and> \<not> range_valid v rng))
      \<longrightarrow> published (tick live now e) A = Some (mk_result (Some d) ''DEFAULT'' ''ASSUMED'') \<and>
          published (tick live now e) B = Some (mk_result (Some (d * 2)) ''CALCULATED'' ''INFERRED'') \<and>
          badge (mk_result (Some (d * 2)) ''CALCULATED'' ''INFERRED'') = ''CALCULATED'')"
  by (auto simp: resolve_all_append tick_def resolve_one_def resolve_parameter_def config_of_def
      compute_resolved_def binary_def ident_value_def mk_result_def badge_def
      split: sum.splits option.splits)

theorem calculated_uses_resolved_values_witness:
  "published (tick no_live_data 1 running_engine) ''A''
     = Some (mk_result (Some 10) ''DEFAULT'' ''ASSUMED'')
   \<and> published (tick no_live_data 1 running_engine) ''B''
     = Some (mk_result (Some 20) ''CALCULATED'' ''INFERRED'')
   \<and> published (tick [''reg1'' \<mapsto> 250] 1 running_engine) ''B''
     = Some (mk_result (Some 20) ''CALCULATED'' ''INFERRED'')"
proof -
  have chains: "''A'' \<noteq> ''B''" "eval_order running_engine = [''A'', ''B'']"
    "chain_of (active running_engine) ''A'' = [Modbus ''reg1'' (0, 100), Default 10]"
    "chain_of (active running_engine) ''B'' = [Calculated (Mul (Ident ''A'') (Num 2))]"
    by (simp_all add: running_engine_def dependency_gen_def chain_of_def effective_chain_def)
  have absent: "no_live_data ''reg1'' = None"
    by (simp add: no_live_data_def)
  have invalid: "\<exists>v. [''reg1'' \<mapsto> 250] ''reg1'' = Some v \<and> \<not> range_valid v (0, 100)"
    by simp
  from calculated_uses_resolved_values [where e = running_engine and A = "''A''" and B = "''B''"
      and register = "''reg1''" and rng = "(0, 100)" and d = 10 and live = no_live_data and now = 1]
    chains absent
  have 1: "published (tick no_live_data 1 running_engine) ''A''
       = Some (mk_result (Some 10) ''DEFAULT'' ''ASSUMED'')
     \<and> published (tick no_live_data 1 running_engine) ''B''
       = Some (mk_result (Some 20) ''CALCULATED'' ''INFERRED'')"
    by simp
  from calculated_uses_resolved_values [where e = running_engine and A = "''A''" and B = "''B''"
      and register = "''reg1''" and rng = "(0, 100)" and d = 10 and live = "[''reg1'' \<mapsto> 250]"
      and now = 1]
    chains invalid
  have 2: "published (tick [''reg1'' \<mapsto> 250] 1 running_engine) ''B''
       = Some (mk_result (Some 20) ''CALCULATED'' ''INFERRED'')"
    by simp
  from 1 2 show ?thesis by blast
qed

section \<open>Properties of the registry\<close>

lemma topological_append:
  assumes placed: "topological gen placed"
    and new: "\<forall>p \<in> set new. \<forall>i \<in> set (deps gen p). i \<in> set placed"
  shows "topological gen (placed @ new)"
  unfolding topological_def
proof (intro allI impI ballI)
  fix k i
  assume k: "k < length (placed @ new)" and i: "i \<in> set (deps gen ((placed @ new) ! k))"
  show "i \<in> set (take k (placed @ new))"
  proof (cases "k < length placed")
    case True
    with i placed have "i \<in> set (take k placed)"
      by (simp add: topological_def nth_append)
    with True show ?thesis by simp
  next
    case False
    with k have "(placed @ new) ! k \<in> set new"
      by (simp add: nth_append)
    with i new have "i \<in> set placed" by blast
    with False show ?thesis by simp
  qed
qed

lemma topo_order_sound:
  "topo_order gen pending placed = Inr ord \<Longrightarrow> topological gen placed \<Longrightarrow>
   distinct (placed @ pending) \<Longrightarrow>
   topological gen ord \<and> set ord = set placed \<union> set pending \<and> distinct ord"
proof (induction gen pending placed rule: topo_order.induct)
  case (1 gen pending placed)
  show ?case
  proof (cases "pending = []")
    case True
    with "1.prems" show ?thesis by (simp add: topo_order.simps)
  next
    case False
    let ?now = "filter (ready gen placed) pending"
    let ?later = "filter (\<lambda>p. \<not> ready gen placed p) pending"
    from False "1.prems"(1) have some: "?now \<noteq> []"
      by (auto simp: topo_order.simps [of gen pending placed] split: if_splits)
    with False "1.prems"(1) have rec: "topo_order gen ?later (placed @ ?now) = Inr ord"
      by (simp add: topo_order.simps [of gen pending placed])
    have "topological gen (placed @ ?now)"
      using "1.prems"(2) by (rule topological_append) (simp add: ready_def list_all_iff)
    moreover have "distinct ((placed @ ?now) @ ?later)"
      using "1.prems"(3) by auto
    ultimately have "topological gen ord \<and> set ord = set (placed @ ?now) \<union> set ?later \<and> distinct ord"
      using "1.IH" [OF False some rec] by blast
    then show ?thesis by auto
  qed
qed

lemma topo_order_error:
  "topo_order gen pending placed = Inl err \<Longrightarrow>
   \<exists>ps. err = CyclicReference ps \<and> ps \<noteq> [] \<and> set ps \<subseteq> set pending"
proof (induction gen pending placed rule: topo_order.induct)
  case (1 gen pending placed)
  show ?case
  proof (cases "pending = [] \<or> filter (ready gen placed) pending = []")
    case True
    with "1.prems" show ?thesis
      by (auto simp: topo_order.simps [of gen pending placed] split: if_splits)
  next
    case False
    with "1.prems" have "topo_order gen (filter (\<lambda>p. \<not> ready gen placed p) pending)
        (placed @ filter (ready gen placed) pending) = Inl err"
      by (simp add: topo_order.simps [of gen pending placed])
    with "1.IH" False show ?thesis by auto
  qed
qed

lemma first_place:
  assumes "x \<in> set xs"
  shows "length (takeWhile (\<lambda>y. y \<noteq> x) xs) < length xs"
    and "xs ! length (takeWhile (\<lambda>y. y \<noteq> x) xs) = x"
proof -
  show less: "length (takeWhile (\<lambda>y. y \<noteq> x) xs) < length xs"
    using assms by (induction xs) auto
  from nth_length_takeWhile [OF less] show "xs ! length (takeWhile (\<lambda>y. y \<noteq> x) xs) = x"
    by simp
qed

lemma first_place_less:
  assumes "x \<in> set (take k xs)"
  shows "length (takeWhile (\<lambda>y. y \<noteq> x) xs) < k"
  using assms
proof (induction xs arbitrary: k)
  case Nil
  then show ?case by simp
next
  case (Cons a xs)
  then show ?case by (cases k) auto
qed

lemma topological_acyclic:
  assumes topo: "topological gen ord" and all: "set (param_names gen) \<subseteq> set ord"
  shows "acyclic (ref_graph gen)"
proof (rule acyclicI_order [where f = "\<lambda>x. length (takeWhile (\<lambda>y. y \<noteq> x) ord)"])
  fix p i
  assume "(p, i) \<in> ref_graph gen"
  then have p: "p \<in> set ord" and i: "i \<in> set (deps gen p)"
    using all by (auto simp: ref_graph_def)
  let ?k = "length (takeWhile (\<lambda>y. y \<noteq> p) ord)"
  from first_place [OF p] have "?k < length ord" "ord ! ?k = p" by simp_all
  with topo i have "i \<in> set (take ?k ord)"
    by (auto simp: topological_def)
  then show "length (takeWhile (\<lambda>y. y \<noteq> i) ord) < ?k"
    by (rule first_place_less)
qed

lemma unknown_refs_set:
  "set (unknown_refs gen) = {(p, i). (p, i) \<in> ref_graph gen \<and> i \<notin> set (param_names gen)}"
  by (auto simp: unknown_refs_def ref_graph_def)

lemma validate_sound:
  assumes "validate gen = Inr ord"
  shows "topological gen ord" "set ord = set (param_names gen)" "distinct ord"
    "acyclic (ref_graph gen)" "unknown_refs gen = []"
proof -
  from assms show none: "unknown_refs gen = []"
    by (auto simp: validate_def split: list.splits)
  with assms have "topo_order gen (param_names gen) [] = Inr ord"
    by (simp add: validate_def)
  from topo_order_sound [OF this]
  show topo: "topological gen ord" and set: "set ord = set (param_names gen)" and "distinct ord"
    by (simp_all add: topological_def param_names_def)
  from topological_acyclic [OF topo] set show "acyclic (ref_graph gen)" by simp
qed

lemma validate_error:
  assumes "validate gen = Inl err"
  shows "(\<exists>p i. err = UnknownReference p i \<and> (p, i) \<in> ref_graph gen \<and> i \<notin> set (param_names gen))
       \<or> (\<exists>ps. err = CyclicReference ps \<and> ps \<noteq> [] \<and> set ps \<subseteq> set (param_names gen))"
proof (cases "unknown_refs gen")
  case Nil
  with assms have "topo_order gen (param_names gen) [] = Inl err"
    by (simp add: validate_def)
  from topo_order_error [OF this] show ?thesis by blast
next
  case (Cons pi rest)
  obtain p i where pi: "pi = (p, i)" by (cases pi)
  with Cons have "(p, i) \<in> set (unknown_refs gen)" by simp
  then have "(p, i) \<in> ref_graph gen \<and> i \<notin> set (param_names gen)"
    by (simp add: unknown_refs_set)
  moreover from assms Cons pi have "err = UnknownReference p i"
    by (simp add: validate_def)
  ultimately show ?thesis by blast
qed

lemma finite_ref_graph: "finite (ref_graph gen)"
proof -
  have "ref_graph gen \<subseteq> set (param_names gen) \<times> (\<Union>p \<in> set (param_names gen). set (deps gen p))"
    by (auto simp: ref_graph_def)
  then show ?thesis by (rule finite_subset) simp
qed

lemma stuck_is_cyclic:
  assumes pending: "pending \<noteq> []" "set pending \<subseteq> set (param_names gen)"
    and stuck: "filter (ready gen placed) pending = []"
    and known: "\<forall>p \<in> set pending. \<forall>i \<in> set (deps gen p). i \<in> set placed \<union> set pending"
  shows "\<not> acyclic (ref_graph gen)"
proof
  assume "acyclic (ref_graph gen)"
  with finite_ref_graph have "wf ((ref_graph gen)\<inverse>)"
    by (rule finite_acyclic_wf_converse)
  moreover from pending(1) obtain x where "x \<in> set pending" by (cases pending) auto
  ultimately obtain z where z: "z \<in> set pending"
    and least: "\<And>y. (y, z) \<in> (ref_graph gen)\<inverse> \<Longrightarrow> y \<notin> set pending"
    by (rule wfE_min) blast
  have "\<forall>i \<in> set (deps gen z). i \<in> set placed"
  proof
    fix i assume i: "i \<in> set (deps gen z)"
    with z pending(2) have "(i, z) \<in> (ref_graph gen)\<inverse>"
      by (auto simp: ref_graph_def)
    then have "i \<notin> set pending" by (rule least)
    with known z i show "i \<in> set placed" by blast
  qed
  then have "ready gen placed z" by (simp add: ready_def list_all_iff)
  with z stuck show False by (simp add: filter_empty_conv)
qed

lemma topo_order_complete:
  "topo_order gen pending placed = Inl err \<Longrightarrow> set pending \<subseteq> set (param_names gen) \<Longrightarrow>
   \<forall>p \<in> set pending. \<forall>i \<in> set (deps gen p). i \<in> set placed \<union> set pending \<Longrightarrow>
   \<not> acyclic (ref_graph gen)"
proof (induction gen pending placed rule: topo_order.induct)
  case (1 gen pending placed)
  from "1.prems"(1) have nonempty: "pending \<noteq> []"
    by (auto simp: topo_order.simps [of gen pending placed])
  show ?case
  proof (cases "filter (ready gen placed) pending = []")
    case True
    with nonempty "1.prems" show ?thesis by (intro stuck_is_cyclic)
  next
    case False
    let ?now = "filter (ready gen placed) pending"
    let ?later = "filter (\<lambda>p. \<not> ready gen placed p) pending"
    from False nonempty "1.prems"(1) have "topo_order gen ?later (placed @ ?now) = Inl err"
      by (simp add: topo_order.simps [of gen pending placed])
    moreover from "1.prems"(2) have "set ?later \<subseteq> set (param_names gen)" by auto
    moreover from "1.prems"(3)
    have "\<forall>p \<in> set ?later. \<forall>i \<in> set (deps gen p). i \<in> set (placed @ ?now) \<union> set ?later"
      by auto
    ultimately show ?thesis
      using "1.IH" [OF nonempty False] by blast
  qed
qed

lemma validate_complete:
  assumes "validate gen = Inl err"
  shows "\<not> acyclic (ref_graph gen) \<or> (\<exists>(p, i) \<in> ref_graph gen. i \<notin> set (param_names gen))"
proof (cases "unknown_refs gen = []")
  case True
  with assms have stuck: "topo_order gen (param_names gen) [] = Inl err"
    by (simp add: validate_def)
  from True have "\<forall>p \<in> set (param_names gen). \<forall>i \<in> set (deps gen p). i \<in> set (param_names gen)"
    using unknown_refs_set [of gen] by (auto simp: ref_graph_def)
  with topo_order_complete [OF stuck] show ?thesis by simp
next
  case False
  then obtain p i where "(p, i) \<in> set (unknown_refs gen)"
    by (cases "unknown_refs gen") auto
  then show ?thesis by (auto simp: unknown_refs_set)
qed

text \<open>
  Claim C6. \<^verbatim>\<open>Load\<close> fails with a \<^verbatim>\<open>ConfigurationError\<close> exactly when the reference graph of the
  submitted definitions has a cycle (as in \<^verbatim>\<open>A = B + 1\<close>, \<^verbatim>\<open>B = A * 2\<close>) or a formula names a
  parameter that is not defined; the error names a dangling reference or the parameters
  held up by a cycle. A failed \<^verbatim>\<open>Load\<close> leaves the engine, and so the active generation,
  as it was. A successful \<^verbatim>\<open>Load\<close> makes the definitions the active generation; their
  reference graph is acyclic and the evaluation order is a topological order of all the
  parameters.
\<close>

theorem Load_swaps_or_rejects:
  "((\<not> acyclic (ref_graph defs) \<or> (\<exists>(p, i) \<in> ref_graph defs. i \<notin> set (param_names defs)))
      \<longleftrightarrow> (\<exists>err. Load defs e = (Some err, e)))
   \<and> (fst (Load defs e) \<noteq> None \<longrightarrow> snd (Load defs e) = e)
   \<and> (fst (Load defs e) = Some err \<longrightarrow>
        (\<exists>p i. err = UnknownReference p i \<and> (p, i) \<in> ref_graph defs \<and>
               i \<notin> set (param_names defs))
        \<or> (\<exists>ps. err = CyclicReference ps \<and> ps \<noteq> [] \<and> set ps \<subseteq> set (param_names defs)))
   \<and> (fst (Load defs e) = None \<longrightarrow>
        acyclic (ref_graph defs) \<and>
        (\<forall>(p, i) \<in> ref_graph defs. i \<in> set (param_names defs)) \<and>
        active (snd (Load defs e)) = defs \<and>
        topological defs (eval_order (snd (Load defs e))) \<and>
        set (eval_order (snd (Load defs e))) = set (param_names defs) \<and>
        distinct (eval_order (snd (Load defs e))))"
proof (cases "validate defs")
  case (Inl err')
  from validate_complete [OF Inl] validate_error [OF Inl] Inl show ?thesis
    by (auto simp: Load_def)
next
  case (Inr ord)
  have "\<forall>(p, i) \<in> ref_graph defs. i \<in> set (param_names defs)"
    using validate_sound(5) [OF Inr] unknown_refs_set [of defs] by auto
  with validate_sound [OF Inr] Inr show ?thesis
    by (auto simp: Load_def)
qed

lemma cyclic_gen_edges:
  "(''A'', ''B'') \<in> ref_graph cyclic_gen" "(''B'', ''A'') \<in> ref_graph cyclic_gen"
  by (simp_all add: ref_graph_def cyclic_gen_def param_names_def deps_def chain_of_def
      effective_chain_def)

theorem Load_swaps_or_rejects_witness:
  "(\<exists>err. Load cyclic_gen running_engine = (Some err, running_engine))
   \<and> active (snd (Load cyclic_gen running_engine)) = dependency_gen
   \<and> (\<exists>err. Load dangling_gen running_engine = (Some err, running_engine))
   \<and> fst (Load dependency_gen running_engine) = None
   \<and> acyclic (ref_graph dependency_gen)
   \<and> topological dependency_gen (eval_order (snd (Load dependency_gen running_engine)))"
proof -
  have "(''A'', ''A'') \<in> (ref_graph cyclic_gen)\<^sup>+"
    using cyclic_gen_edges by (rule trancl_into_trancl [OF r_into_trancl])
  then have cyclic: "\<not> acyclic (ref_graph cyclic_gen)"
    by (auto simp: acyclic_def)
  have "(''B'', ''A'') \<in> ref_graph dangling_gen \<and> ''A'' \<notin> set (param_names dangling_gen)"
    by (simp add: ref_graph_def dangling_gen_def param_names_def deps_def chain_of_def
        effective_chain_def)
  then have dangling: "\<exists>(p, i) \<in> ref_graph dangling_gen. i \<notin> set (param_names dangling_gen)"
    by blast
  have loads: "fst (Load dependency_gen running_engine) = None"
    by (simp add: Load_def validate_def unknown_refs_def dependency_gen_def param_names_def
        deps_def chain_of_def effective_chain_def topo_order.simps ready_def)
  from Load_swaps_or_rejects [where defs = cyclic_gen and e = running_engine] cyclic
  have 1: "\<exists>err. Load cyclic_gen running_engine = (Some err, running_engine)"
    by blast
  then have 2: "active (snd (Load cyclic_gen running_engine)) = dependency_gen"
    by (auto simp: running_engine_def)
  from Load_swaps_or_rejects [where defs = dangling_gen and e = running_engine] dangling
  have 3: "\<exists>err. Load dangling_gen running_engine = (Some err, running_engine)"
    by blast
  from Load_swaps_or_rejects [where defs = dependency_gen and e = running_engine] loads
  have 4: "acyclic (ref_graph dependency_gen)
     \<and> topological dependency_gen (eval_order (snd (Load dependency_gen running_engine)))"
    by blast
  from 1 2 3 loads 4 show ?thesis by blast
qed

section \<open>The tick as a function of its inputs\<close>

lemma eval_formula_cong:
  "\<forall>i \<in> set (idents f). r1 i = r2 i \<Longrightarrow> eval_formula r1 f = eval_formula r2 f"
  by (induction f) (simp_all add: ident_value_def cong: option.case_cong)

lemma try_source_cong:
  "\<forall>i \<in> set (source_idents s). r1 i = r2 i \<Longrightarrow>
   try_source range_valid (compute_resolved r1) config live s
   = try_source range_valid (compute_resolved r2) config live s"
  by (cases s) (simp_all add: compute_resolved_def eval_formula_cong [of _ r1 r2])

lemma resolve_sources_cong:
  "\<forall>i \<in> set (concat (map source_idents chain)). r1 i = r2 i \<Longrightarrow>
   resolve_sources range_valid (compute_resolved r1) config live chain
   = resolve_sources range_valid (compute_resolved r2) config live chain"
proof (induction chain)
  case Nil
  show ?case by simp
next
  case (Cons s chain)
  then have "try_source range_valid (compute_resolved r1) config live s
      = try_source range_valid (compute_resolved r2) config live s"
    by (intro try_source_cong) simp
  with Cons show ?case by (simp cong: option.case_cong)
qed

lemma resolve_one_cong:
  "\<forall>i \<in> set (deps gen p). r1 i = r2 i \<Longrightarrow>
   resolve_one (config_of gen) live r1 p = resolve_one (config_of gen) live r2 p"
  using resolve_sources_cong [of "chain_of gen p" r1 r2 "config_of gen" live]
  by (simp add: resolve_one_def resolve_parameter_def config_of_def deps_def)

lemma resolve_all_other:
  "q \<notin> set ps \<Longrightarrow> resolve_all config live ps res q = res q"
  by (induction ps arbitrary: res) simp_all

lemma resolve_all_fixpoint:
  assumes topo: "topological gen ord" and dist: "distinct ord" and k: "k < length ord"
  shows "resolve_all (config_of gen) live ord Map.empty (ord ! k)
    = Some (resolve_one (config_of gen) live
              (resolve_all (config_of gen) live ord Map.empty) (ord ! k))"
proof -
  let ?cfg = "config_of gen"
  let ?before = "resolve_all ?cfg live (take k ord) Map.empty"
  let ?all = "resolve_all ?cfg live ord Map.empty"
  from k have split: "ord = take k ord @ ord ! k # drop (Suc k) ord"
    by (rule id_take_nth_drop)
  from dist have apart: "set (take k ord) \<inter> set (drop k ord) = {}"
    by (metis append_take_drop_id distinct_append)
  from dist split have fresh: "ord ! k \<notin> set (drop (Suc k) ord)"
    by (metis distinct.simps(2) distinct_append)
  have all: "?all = resolve_all ?cfg live (drop (Suc k) ord)
      (?before(ord ! k \<mapsto> resolve_one ?cfg live ?before (ord ! k)))"
    by (subst split) (simp add: resolve_all_append)
  have here: "?all (ord ! k) = Some (resolve_one ?cfg live ?before (ord ! k))"
    by (subst all) (simp add: resolve_all_other [OF fresh])
  have "?before i = ?all i" if "i \<in> set (deps gen (ord ! k))" for i
  proof -
    from that topo k have "i \<in> set (take k ord)"
      by (auto simp: topological_def)
    with apart have "i \<notin> set (drop k ord)" by blast
    with k have "i \<notin> set (ord ! k # drop (Suc k) ord)"
      by (simp add: Cons_nth_drop_Suc)
    then have "resolve_all ?cfg live (ord ! k # drop (Suc k) ord) ?before i = ?before i"
      by (rule resolve_all_other)
    moreover have "?all = resolve_all ?cfg live (ord ! k # drop (Suc k) ord) ?before"
      by (subst split) (simp add: resolve_all_append)
    ultimately show ?thesis by simp
  qed
  then have "resolve_one ?cfg live ?before (ord ! k) = resolve_one ?cfg live ?all (ord ! k)"
    by (intro resolve_one_cong) simp
  with here show ?thesis by simp
qed

lemma fixpoint_unique:
  assumes topo: "topological gen ord"
    and r1: "\<forall>p \<in> set ord. r1 p = Some (resolve_one (config_of gen) live r1 p)"
    and r2: "\<forall>p \<in> set ord. r2 p = Some (resolve_one (config_of gen) live r2 p)"
  shows "k < length ord \<Longrightarrow> r1 (ord ! k) = r2 (ord ! k)"
proof (induction k rule: less_induct)
  case (less k)
  have "r1 i = r2 i" if "i \<in> set (deps gen (ord ! k))" for i
  proof -
    from that topo less.prems have "i \<in> set (take k ord)"
      by (auto simp: topological_def)
    then obtain j where "j < k" "j < length ord" "ord ! j = i"
      by (auto simp: in_set_conv_nth)
    with less.IH show ?thesis by blast
  qed
  then have "resolve_one (config_of gen) live r1 (ord ! k)
      = resolve_one (config_of gen) live r2 (ord ! k)"
    by (intro resolve_one_cong) simp
  with r1 r2 less.prems show ?case by simp
qed

lemma resolve_all_order_independent:
  assumes "topological gen ord1" "distinct ord1" "topological gen ord2" "distinct ord2"
    and same: "set ord1 = set ord2"
  shows "resolve_all (config_of gen) live ord1 Map.empty
       = resolve_all (config_of gen) live ord2 Map.empty"
proof (rule ext)
  fix p
  let ?r1 = "resolve_all (config_of gen) live ord1 Map.empty"
  let ?r2 = "resolve_all (config_of gen) live ord2 Map.empty"
  show "?r1 p = ?r2 p"
  proof (cases "p \<in> set ord1")
    case False
    with same show ?thesis by (simp add: resolve_all_other)
  next
    case True
    have f1: "\<forall>p \<in> set ord1. ?r1 p = Some (resolve_one (config_of gen) live ?r1 p)"
      using resolve_all_fixpoint [OF assms(1,2)] by (auto simp: in_set_conv_nth)
    have f2: "\<forall>p \<in> set ord1. ?r2 p = Some (resolve_one (config_of gen) live ?r2 p)"
      using resolve_all_fixpoint [OF assms(3,4)] same by (auto simp: in_set_conv_nth)
    from True obtain k where "k < length ord1" "ord1 ! k = p"
      by (auto simp: in_set_conv_nth)
    with fixpoint_unique [OF assms(1) f1 f2] show ?thesis by blast
  qed
qed

lemma resolve_sources_frame:
  assumes "\<forall>register rng. Modbus register rng \<in> set chain \<longrightarrow> live1 register = live2 register"
    and "\<forall>f. Calculated f \<in> set chain \<longrightarrow> compute f live1 config = compute f live2 config"
  shows "resolve_sources is_valid compute config live1 chain
       = resolve_sources is_valid compute config live2 chain"
  using assms
proof (induction chain)
  case Nil
  show ?case by simp
next
  case (Cons s chain)
  have rest: "resolve_sources is_valid compute config live1 chain
      = resolve_sources is_valid compute config live2 chain"
  proof (rule Cons.IH)
    show "\<forall>register rng. Modbus register rng \<in> set chain \<longrightarrow> live1 register = live2 register"
      using Cons.prems(1) by (simp del: split_paired_All)
    show "\<forall>f. Calculated f \<in> set chain \<longrightarrow> compute f live1 config = compute f live2 config"
      using Cons.prems(2) by simp
  qed
  have "try_source is_valid compute config live1 s = try_source is_valid compute config live2 s"
  proof (cases s)
    case (Modbus register rng)
    then have "Modbus register rng \<in> set (s # chain)" by simp
    with Cons.prems(1) have "live1 register = live2 register" by blast
    with Modbus show ?thesis by simp
  next
    case (Calculated f)
    then have "Calculated f \<in> set (s # chain)" by simp
    with Cons.prems(2) have "compute f live1 config = compute f live2 config" by blast
    with Calculated show ?thesis by simp
  qed simp_all
  with rest show ?case by (simp cong: option.case_cong)
qed

text \<open>
  Claim C7. The snapshot a tick publishes is a function of the telemetry and the active
  generation alone. Two engines with the same generation that tick on the same live data
  publish the same result for every parameter (value, quality and source), whatever they
  published before, whatever the times of the ticks, and whichever topological order of
  the parameters each of them evaluates in; so do two engines that loaded the same
  definitions. The resolver of one parameter itself depends on the live data only through
  the registers of the parameter's live sources and what \<^verbatim>\<open>compute\<close> yields for its formulas.
\<close>

theorem tick_depends_on_inputs_only:
  "(active e1 = active e2 \<and>
    topological (active e1) (eval_order e1) \<and> distinct (eval_order e1) \<and>
    topological (active e2) (eval_order e2) \<and> distinct (eval_order e2) \<and>
    set (eval_order e1) = set (eval_order e2)
    \<longrightarrow> published (tick live now1 e1) = published (tick live now2 e2))
   \<and> (fst (Load defs e1) = None \<and> fst (Load defs e2) = None
    \<longrightarrow> published (tick live now1 (snd (Load defs e1)))
        = published (tick live now2 (snd (Load defs e2))))
   \<and> ((\<forall>register rng. Modbus register rng \<in> set (get_source_priority config p)
          \<longrightarrow> live1 register = live2 register) \<and>
      (\<forall>f. Calculated f \<in> set (get_source_priority config p)
          \<longrightarrow> compute f live1 config = compute f live2 config)
    \<longrightarrow> resolve_parameter is_valid compute p config live1
        = resolve_parameter is_valid compute p config live2)"
proof (intro conjI impI)
  assume "active e1 = active e2 \<and>
    topological (active e1) (eval_order e1) \<and> distinct (eval_order e1) \<and>
    topological (active e2) (eval_order e2) \<and> distinct (eval_order e2) \<and>
    set (eval_order e1) = set (eval_order e2)"
  then have same: "active e1 = active e2" "set (eval_order e1) = set (eval_order e2)"
    and first: "topological (active e1) (eval_order e1)" "distinct (eval_order e1)"
    and second: "topological (active e1) (eval_order e2)" "distinct (eval_order e2)"
    by auto
  have "resolve_all (config_of (active e1)) live (eval_order e1) Map.empty
      = resolve_all (config_of (active e1)) live (eval_order e2) Map.empty"
    using first second same(2) by (rule resolve_all_order_independent)
  with same(1) have "resolve_all (config_of (active e1)) live (eval_order e1) Map.empty
      = resolve_all (config_of (active e2)) live (eval_order e2) Map.empty"
    by simp
  then show "published (tick live now1 e1) = published (tick live now2 e2)"
    by (simp add: tick_def)
next
  assume "fst (Load defs e1) = None \<and> fst (Load defs e2) = None"
  then show "published (tick live now1 (snd (Load defs e1)))
      = published (tick live now2 (snd (Load defs e2)))"
    by (cases "validate defs") (simp_all add: Load_def tick_def)
next
  assume "(\<forall>register rng. Modbus register rng \<in> set (get_source_priority config p)
          \<longrightarrow> live1 register = live2 register) \<and>
      (\<forall>f. Calculated f \<in> set (get_source_priority config p)
          \<longrightarrow> compute f live1 config = compute f live2 config)"
  then have "resolve_sources is_valid compute config live1 (get_source_priority config p)
      = resolve_sources is_valid compute config live2 (get_source_priority config p)"
    by (intro resolve_sources_frame) (erule conjunct1, erule conjunct2)
  then show "resolve_parameter is_valid compute p config live1
      = resolve_parameter is_valid compute p config live2"
    by (simp add: resolve_parameter_def)
qed

lemma topological_Nil: "topological gen []"
  by (simp add: topological_def)

lemma topological_snoc:
  "topological gen ord \<Longrightarrow> list_all (\<lambda>i. i \<in> set ord) (deps gen p) \<Longrightarrow>
   topological gen (ord @ [p])"
  by (rule topological_append) (simp_all add: list_all_iff)

lemma mixed_gen_deps:
  "deps mixed_gen ''A'' = []"
  "deps mixed_gen ''B'' = [''A'']"
  "deps mixed_gen ''DischargeTempUp'' = []"
  by (simp_all add: mixed_gen_def dependency_gen_def discharge_temp_def_def deps_def
      chain_of_def effective_chain_def)

theorem tick_depends_on_inputs_only_witness:
  "published (tick live_regs 8 engine_one) = published (tick live_regs 9 engine_two)
   \<and> published (tick live_regs 8 (snd (Load mixed_gen engine_one)))
     = published (tick live_regs 9 (snd (Load mixed_gen engine_two)))
   \<and> published (tick live_regs 8 engine_one) ''B''
     = Some (mk_result (Some 100) ''CALCULATED'' ''INFERRED'')
   \<and> resolve_parameter range_valid no_calculation ''suction_temp_1'' plan_config live_40090
     = resolve_parameter range_valid no_calculation ''suction_temp_1'' plan_config
         (live_40090(''reg2'' \<mapsto> 150))"
proof -
  have "topological mixed_gen ((([] @ [''A'']) @ [''B'']) @ [''DischargeTempUp''])"
    by (intro topological_snoc topological_Nil) (simp_all add: mixed_gen_deps)
  then have one: "topological (active engine_one) (eval_order engine_one)"
    by (simp add: engine_one_def)
  have "topological mixed_gen ((([] @ [''DischargeTempUp'']) @ [''A'']) @ [''B''])"
    by (intro topological_snoc topological_Nil) (simp_all add: mixed_gen_deps)
  then have two: "topological (active engine_two) (eval_order engine_two)"
    by (simp add: engine_two_def)
  have same: "active engine_one = active engine_two"
    "distinct (eval_order engine_one)" "distinct (eval_order engine_two)"
    "set (eval_order engine_one) = set (eval_order engine_two)"
    by (auto simp: engine_one_def engine_two_def)
  have names: "param_names mixed_gen = [''A'', ''B'', ''DischargeTempUp'']"
    by (simp add: param_names_def mixed_gen_def dependency_gen_def discharge_temp_def_def)
  have "validate mixed_gen = Inr [''A'', ''DischargeTempUp'', ''B'']"
    by (simp add: validate_def unknown_refs_def names mixed_gen_deps topo_order.simps ready_def)
  then have loads: "fst (Load mixed_gen engine_one) = None" "fst (Load mixed_gen engine_two) = None"
    by (simp_all add: Load_def)
  have registers: "\<forall>register rng.
      Modbus register rng \<in> set (get_source_priority plan_config ''suction_temp_1'')
      \<longrightarrow> live_40090 register = (live_40090(''reg2'' \<mapsto> 150)) register"
    by (simp add: plan_config_def suction_temp_sources_def)
  have formulas: "\<forall>f. Calculated f \<in> set (get_source_priority plan_config ''suction_temp_1'')
      \<longrightarrow> no_calculation f live_40090 plan_config
          = no_calculation f (live_40090(''reg2'' \<mapsto> 150)) plan_config"
    by (simp add: no_calculation_def)
  note inst = tick_depends_on_inputs_only [where ?e1.0 = engine_one and ?e2.0 = engine_two
      and live = live_regs and ?now1.0 = 8 and ?now2.0 = 9 and defs = mixed_gen
      and config = plan_config and p = "''suction_temp_1''" and ?live1.0 = live_40090
      and ?live2.0 = "live_40090(''reg2'' \<mapsto> 150)" and compute = no_calculation
      and is_valid = range_valid]
  have 1: "published (tick live_regs 8 engine_one) = published (tick live_regs 9 engine_two)"
    using one two same by (intro inst [THEN conjunct1, THEN mp]) simp
  have reloaded: "published (tick live_regs 8 (snd (Load mixed_gen engine_one)))
       = published (tick live_regs 9 (snd (Load mixed_gen engine_two)))"
    using loads by (intro inst [THEN conjunct2, THEN conjunct1, THEN mp]) simp
  have 3: "resolve_parameter range_valid no_calculation ''suction_temp_1'' plan_config live_40090
     = resolve_parameter range_valid no_calculation ''suction_temp_1'' plan_config
         (live_40090(''reg2'' \<mapsto> 150))"
    by (rule inst [THEN conjunct2, THEN conjunct2, THEN mp]) (rule conjI [OF registers formulas])
  have 2: "published (tick live_regs 8 engine_one) ''B''
     = Some (mk_result (Some 100) ''CALCULATED'' ''INFERRED'')"
    by (simp add: tick_def engine_one_def resolve_one_def resolve_parameter_def config_of_def
        chain_of_def effective_chain_def mixed_gen_def dependency_gen_def discharge_temp_def_def
        live_regs_def compute_resolved_def binary_def ident_value_def)
  show ?thesis
    by (intro conjI 1 reloaded 2 3)
qed


section \<open>The end-to-end scenario of the spec\<close>

lemma scenario_chains:
  "chain_of scenario_gen ''DischargeTempUp'' = [Modbus ''reg2'' (0, 400)]"
  "chain_of scenario_gen ''SuctionTemp1'' =
     [Modbus ''reg1'' (0, 200), Calculated (Sub (Ident ''DischargeTempUp'') (Num 15)),
      Manual 80, Default 75]"
  "chain_of scenario_gen_manual_off ''DischargeTempUp'' = [Modbus ''reg2'' (0, 400)]"
  "chain_of scenario_gen_manual_off ''SuctionTemp1'' =
     [Modbus ''reg1'' (0, 200), Calculated (Sub (Ident ''DischargeTempUp'') (Num 15)), Default 75]"
  by (simp_all add: chain_of_def scenario_gen_def scenario_gen_manual_off_def
      discharge_temp_def_def suction_temp_def_def effective_chain_def)

text \<open>
  With \<^verbatim>\<open>reg1\<close> in the telemetry the suction temperature is the live value; without it the
  value is calculated from the discharge temperature; when that is \<^verbatim>\<open>BAD\<close> too, the
  manual value 80 is taken, and the default 75 once manual mode is switched off.
\<close>

lemma end_to_end_scenario:
  "resolve_all (config_of scenario_gen) [''reg1'' \<mapsto> 82.3]
     [''DischargeTempUp'', ''SuctionTemp1''] Map.empty ''SuctionTemp1''
   = Some (mk_result (Some 82.3) ''MODBUS'' ''GOOD'')"
  "resolve_all (config_of scenario_gen) [''reg2'' \<mapsto> 120]
     [''DischargeTempUp'', ''SuctionTemp1''] Map.empty ''SuctionTemp1''
   = Some (mk_result (Some 105) ''CALCULATED'' ''INFERRED'')"
  "resolve_all (config_of scenario_gen) Map.empty
     [''DischargeTempUp'', ''SuctionTemp1''] Map.empty ''SuctionTemp1''
   = Some (mk_result (Some 80) ''MANUAL'' ''STATIC'')"
  "resolve_all (config_of scenario_gen_manual_off) Map.empty
     [''DischargeTempUp'', ''SuctionTemp1''] Map.empty ''SuctionTemp1''
   = Some (mk_result (Some 75) ''DEFAULT'' ''ASSUMED'')"
  by (simp_all add: resolve_one_def resolve_parameter_def config_of_def scenario_chains
      compute_resolved_def binary_def ident_value_def)

section \<open>Properties of the dashboard and the mapping page\<close>

lemma alias_keys_own:
  "alias_keys param = Inr keys \<Longrightarrow> key \<in> set keys \<Longrightarrow> key \<notin> set object_prototype_names"
  by (auto simp: alias_keys_def get_property_def sourceAliases_def object_prototype_names_def
      split: if_splits)

lemma first_source_none:
  "\<forall>key \<in> set keys. sources key = None \<and> key \<notin> set object_prototype_names \<Longrightarrow>
   first_source sources keys = None"
  by (induction keys) (simp_all add: get_property_def)

lemma alias_keys_plain:
  "param \<notin> set object_prototype_names \<Longrightarrow> param \<noteq> ''engine_oil_press'' \<Longrightarrow>
   param \<noteq> ''comp_oil_press'' \<Longrightarrow> alias_keys param = Inr [param]"
  by (simp add: alias_keys_def get_property_def sourceAliases_def)

lemma alias_keys_returns:
  "param \<notin> set object_prototype_names \<Longrightarrow> \<exists>keys. alias_keys param = Inr keys"
  by (simp add: alias_keys_def get_property_def split: option.splits)

lemma dashboard_params_plain:
  "param \<in> set dashboard_params \<Longrightarrow> param \<notin> set object_prototype_names"
  by (auto simp: dashboard_params_def object_prototype_names_def)

text \<open>
  Claim C10. \<^verbatim>\<open>getQuality\<close> answers \<^verbatim>\<open>'LIVE'\<close> for a parameter that has no entry in the
  published sources, neither under its own name nor under one of its aliases; so it does
  for every such parameter when the live data carries no sources at all, and for each of
  the parameters the dashboard asks about. The parameter is the name of a quantity: for
  one of the names every JavaScript object inherits (\<^verbatim>\<open>constructor\<close>, \<^verbatim>\<open>toString\<close>, ...) the
  alias lookup finds the inherited member and the loop over it throws a \<^verbatim>\<open>TypeError\<close>.
\<close>

theorem getQuality_defaults_to_LIVE:
  "(alias_keys param = Inr keys \<and> (\<forall>key \<in> set keys. sources key = None)
      \<longrightarrow> getQuality sources param = Inr (Tag ''LIVE''))
   \<and> (param \<notin> set object_prototype_names \<and>
       param \<noteq> ''engine_oil_press'' \<and> param \<noteq> ''comp_oil_press'' \<and> sources param = None
      \<longrightarrow> getQuality sources param = Inr (Tag ''LIVE''))
   \<and> (param \<notin> set object_prototype_names \<longrightarrow> getQuality Map.empty param = Inr (Tag ''LIVE''))
   \<and> (param \<in> set dashboard_params \<longrightarrow>
        (\<exists>keys. alias_keys param = Inr keys \<and>
           ((\<forall>key \<in> set keys. sources key = None)
              \<longrightarrow> getQuality sources param = Inr (Tag ''LIVE''))))
   \<and> (param \<in> set object_prototype_names \<longrightarrow> getQuality sources param = Inl TypeError)"
proof -
  have absent: "getQuality sources param = Inr (Tag ''LIVE'')"
    if "alias_keys param = Inr keys" "\<forall>key \<in> set keys. sources key = None"
    for sources :: "string \<rightharpoonup> string" and keys
  proof -
    from that alias_keys_own [OF that(1)]
    have "first_source sources keys = None"
      by (intro first_source_none) blast
    with that(1) show ?thesis by (simp add: getQuality_def)
  qed
  have plain: "getQuality sources param = Inr (Tag ''LIVE'')"
    if "param \<notin> set object_prototype_names" "param \<noteq> ''engine_oil_press''"
      "param \<noteq> ''comp_oil_press''" "sources param = None"
    using that absent [OF alias_keys_plain [OF that(1,2,3)]] by simp
  have empty: "getQuality Map.empty param = Inr (Tag ''LIVE'')"
    if "param \<notin> set object_prototype_names"
  proof -
    from alias_keys_returns [OF that] obtain keys where "alias_keys param = Inr keys" ..
    then show ?thesis by (rule absent) simp
  qed
  have asked: "\<exists>keys. alias_keys param = Inr keys \<and>
      ((\<forall>key \<in> set keys. sources key = None) \<longrightarrow> getQuality sources param = Inr (Tag ''LIVE''))"
    if "param \<in> set dashboard_params"
  proof -
    from alias_keys_returns [OF dashboard_params_plain [OF that]]
    obtain keys where keys: "alias_keys param = Inr keys" ..
    with absent [OF keys] show ?thesis by blast
  qed
  have throws: "getQuality sources param = Inl TypeError"
    if "param \<in> set object_prototype_names"
  proof -
    from that have "sourceAliases param = None"
      by (auto simp: sourceAliases_def object_prototype_names_def)
    with that show ?thesis
      by (simp add: getQuality_def alias_keys_def get_property_def)
  qed
  show ?thesis
  proof (intro conjI impI)
    assume "alias_keys param = Inr keys \<and> (\<forall>key \<in> set keys. sources key = None)"
    then show "getQuality sources param = Inr (Tag ''LIVE'')"
      using absent by blast
  next
    assume "param \<notin> set object_prototype_names \<and>
       param \<noteq> ''engine_oil_press'' \<and> param \<noteq> ''comp_oil_press'' \<and> sources param = None"
    then show "getQuality sources param = Inr (Tag ''LIVE'')"
      using plain by blast
  next
    assume "param \<notin> set object_prototype_names"
    then show "getQuality Map.empty param = Inr (Tag ''LIVE'')" by (rule empty)
  next
    assume "param \<in> set dashboard_params"
    then show "\<exists>keys. alias_keys param = Inr keys \<and>
      ((\<forall>key \<in> set keys. sources key = None) \<longrightarrow> getQuality sources param = Inr (Tag ''LIVE''))"
      by (rule asked)
  next
    assume "param \<in> set object_prototype_names"
    then show "getQuality sources param = Inl TypeError" by (rule throws)
  qed
qed

theorem getQuality_defaults_to_LIVE_witness:
  "getQuality [''engine_rpm'' \<mapsto> ''CALCULATED''] ''engine_oil_press'' = Inr (Tag ''LIVE'')
   \<and> getQuality [''engine_rpm'' \<mapsto> ''CALCULATED''] ''jacket_water_temp'' = Inr (Tag ''LIVE'')
   \<and> getQuality Map.empty ''engine_rpm'' = Inr (Tag ''LIVE'')
   \<and> getQuality [''engine_rpm'' \<mapsto> ''CALCULATED''] ''constructor'' = Inl TypeError"
proof -
  note inst = getQuality_defaults_to_LIVE [where sources = "[''engine_rpm'' \<mapsto> ''CALCULATED'']"]
  have keys: "alias_keys ''engine_oil_press'' = Inr [''engine_oil_press'', ''engine_oil_pressure'']"
    by (simp add: alias_keys_def get_property_def sourceAliases_def)
  have none: "\<forall>key \<in> set [''engine_oil_press'', ''engine_oil_pressure''].
      [''engine_rpm'' \<mapsto> ''CALCULATED''] key = None"
    by simp
  have 1: "getQuality [''engine_rpm'' \<mapsto> ''CALCULATED''] ''engine_oil_press'' = Inr (Tag ''LIVE'')"
    by (rule inst [where param = "''engine_oil_press''"
          and keys = "[''engine_oil_press'', ''engine_oil_pressure'']",
          THEN conjunct1, THEN mp]) (rule conjI [OF keys none])
  have plain: "''jacket_water_temp'' \<notin> set object_prototype_names \<and>
      ''jacket_water_temp'' \<noteq> ''engine_oil_press'' \<and> ''jacket_water_temp'' \<noteq> ''comp_oil_press''
      \<and> [''engine_rpm'' \<mapsto> ''CALCULATED''] ''jacket_water_temp'' = None"
    by (simp add: object_prototype_names_def)
  have 2: "getQuality [''engine_rpm'' \<mapsto> ''CALCULATED''] ''jacket_water_temp'' = Inr (Tag ''LIVE'')"
    by (rule inst [where param = "''jacket_water_temp''",
          THEN conjunct2, THEN conjunct1, THEN mp]) (rule plain)
  have rpm: "''engine_rpm'' \<notin> set object_prototype_names"
    by (simp add: object_prototype_names_def)
  have 3: "getQuality Map.empty ''engine_rpm'' = Inr (Tag ''LIVE'')"
    by (rule getQuality_defaults_to_LIVE [where param = "''engine_rpm''",
          THEN conjunct2, THEN conjunct2, THEN conjunct1, THEN mp]) (rule rpm)
  have inherited: "''constructor'' \<in> set object_prototype_names"
    by (simp add: object_prototype_names_def)
  have 4: "getQuality [''engine_rpm'' \<mapsto> ''CALCULATED''] ''constructor'' = Inl TypeError"
    by (rule inst [where param = "''constructor''",
          THEN conjunct2, THEN conjunct2, THEN conjunct2, THEN conjunct2, THEN mp])
       (rule inherited)
  show ?thesis by (intro conjI 1 2 3 4)
qed

lemma apply_draft_manual:
  "valueMode (apply_draft Number trim draft current) = Some (draft_valueMode draft)"
  "manualValue (apply_draft Number trim draft current) =
     (if draft_valueMode draft = MANUAL
      then (if trim (draft_manualValue draft) = [] then None
            else Some (Number (draft_manualValue draft)))
      else None)"
  by (simp_all add: apply_draft_def Let_def)

lemma apply_draft_invariant: "manual_only_in_manual_mode (apply_draft Number trim draft current)"
  by (simp add: manual_only_in_manual_mode_def apply_draft_manual)

text \<open>
  Claim C9. After \<^verbatim>\<open>applyCalibrationDialog\<close> the register the dialog was open on has the
  draft's \<^verbatim>\<open>valueMode\<close>, and its \<^verbatim>\<open>manualValue\<close> is non-null only if that mode is \<^verbatim>\<open>MANUAL\<close>:
  it is null in \<^verbatim>\<open>LIVE\<close> mode and null when the manual-value field was left empty, that
  is, when its text trims to the empty string. The other registers are not touched, so a list of registers that keep a manual value only in
  manual mode is still one after the dialog is applied.
\<close>

theorem applyCalibrationDialog_keeps_manual_invariant:
  "(calibrationIndex st = Some i \<and> i < length (registers st) \<longrightarrow>
      valueMode (registers (applyCalibrationDialog Number trim st) ! i)
        = Some (draft_valueMode (calibrationDraft st)) \<and>
      (manualValue (registers (applyCalibrationDialog Number trim st) ! i) \<noteq> None
         \<longrightarrow> valueMode (registers (applyCalibrationDialog Number trim st) ! i) = Some MANUAL) \<and>
      (valueMode (registers (applyCalibrationDialog Number trim st) ! i) = Some LIVE
         \<longrightarrow> manualValue (registers (applyCalibrationDialog Number trim st) ! i) = None) \<and>
      (trim (draft_manualValue (calibrationDraft st)) = []
         \<longrightarrow> manualValue (registers (applyCalibrationDialog Number trim st) ! i) = None))
   \<and> ((\<forall>r \<in> set (registers st). manual_only_in_manual_mode r) \<longrightarrow>
       (\<forall>r \<in> set (registers (applyCalibrationDialog Number trim st)). manual_only_in_manual_mode r))"
proof -
  have kept: "\<forall>r \<in> set (registers (applyCalibrationDialog Number trim st)). manual_only_in_manual_mode r"
    if inv: "\<forall>r \<in> set (registers st). manual_only_in_manual_mode r"
  proof (cases "calibrationIndex st")
    case None
    with inv show ?thesis by (simp add: applyCalibrationDialog_def)
  next
    case (Some j)
    have "set ((registers st)[j := apply_draft Number trim (calibrationDraft st) (registers st ! j)])
        \<subseteq> insert (apply_draft Number trim (calibrationDraft st) (registers st ! j)) (set (registers st))"
      by (rule set_update_subset_insert)
    with inv Some show ?thesis
      by (auto simp: applyCalibrationDialog_def apply_draft_invariant)
  qed
  show ?thesis
    using kept by (auto simp: applyCalibrationDialog_def apply_draft_manual)
qed

theorem applyCalibrationDialog_keeps_manual_invariant_witness:
  "valueMode (registers (applyCalibrationDialog example_Number example_trim example_page) ! 0) = Some MANUAL
   \<and> manualValue (registers (applyCalibrationDialog example_Number example_trim example_page) ! 0) = Some (Finite 80)
   \<and> list_all manual_only_in_manual_mode
        (registers (applyCalibrationDialog example_Number example_trim example_page))
   \<and> valueMode (registers (applyCalibrationDialog example_Number example_trim example_page_live) ! 0) = Some LIVE
   \<and> manualValue (registers (applyCalibrationDialog example_Number example_trim example_page_live) ! 0) = None
   \<and> manualValue (registers (applyCalibrationDialog example_Number example_trim example_page_blank) ! 0) = None"
proof -
  have idx: "calibrationIndex example_page = Some 0 \<and> 0 < length (registers example_page)"
    "calibrationIndex example_page_live = Some 0 \<and> 0 < length (registers example_page_live)"
    "calibrationIndex example_page_blank = Some 0 \<and> 0 < length (registers example_page_blank)"
    by (simp_all add: example_page_def example_page_live_def example_page_blank_def)
  have inv: "\<forall>r \<in> set (registers example_page). manual_only_in_manual_mode r"
    by (simp add: example_page_def example_register_def manual_only_in_manual_mode_def)
  have val: "manualValue (registers (applyCalibrationDialog example_Number example_trim example_page) ! 0)
      = Some (Finite 80)"
    by (simp add: applyCalibrationDialog_def example_page_def apply_draft_manual
        example_draft_def example_Number_def example_trim_def)
  have mode: "draft_valueMode (calibrationDraft example_page) = MANUAL"
    "draft_valueMode (calibrationDraft example_page_live) = LIVE"
    by (simp_all add: example_page_def example_page_live_def example_draft_def)
  have blank: "example_trim (draft_manualValue (calibrationDraft example_page_blank)) = []"
    by (simp add: example_page_blank_def example_draft_def example_trim_def)
  from applyCalibrationDialog_keeps_manual_invariant [where st = example_page and i = 0
      and Number = example_Number and trim = example_trim] idx(1) inv
  have 1: "valueMode (registers (applyCalibrationDialog example_Number example_trim example_page) ! 0) = Some MANUAL
     \<and> list_all manual_only_in_manual_mode
          (registers (applyCalibrationDialog example_Number example_trim example_page))"
    by (simp add: mode list_all_iff)
  from applyCalibrationDialog_keeps_manual_invariant [where st = example_page_live and i = 0
      and Number = example_Number and trim = example_trim] idx(2)
  have 2: "valueMode (registers (applyCalibrationDialog example_Number example_trim example_page_live) ! 0) = Some LIVE
     \<and> manualValue (registers (applyCalibrationDialog example_Number example_trim example_page_live) ! 0) = None"
    by (simp add: mode)
  from applyCalibrationDialog_keeps_manual_invariant [where st = example_page_blank and i = 0
      and Number = example_Number and trim = example_trim] idx(3) blank
  have 3: "manualValue (registers (applyCalibrationDialog example_Number example_trim example_page_blank) ! 0) = None"
    by blast
  from 1 2 3 val show ?thesis by blast
qed

end
